theory Spec2Isabelle
  imports Main
begin

section \<open>Python values and exceptions\<close>

text \<open>
  The handler of \<^verbatim>\<open>src/main.py\<close> works on values that come out of \<^verbatim>\<open>json.loads\<close>:
  \<^verbatim>\<open>None\<close>, booleans, integers, floats, strings, lists and dictionaries with string keys.
  A dictionary is an association list in insertion order.  A float is carried as its
  \<^verbatim>\<open>repr\<close>: the handler never computes with one, it only prints it.  A string is a list of
  \<^typ>\<open>char\<close>, read as code points below 256.
\<close>

datatype json =
    JNull
  | JBool bool
  | JInt int
  | JFloat string
  | JStr string
  | JArr "json list"
  | JObj "(string \<times> json) list"

datatype subscript = Key string | Index nat

text \<open>
  The exceptions the handler itself can raise, and \<open>External\<close> for whatever a collaborator
  (the file system, the JSON parser, the transcoding service client) raises.
\<close>

datatype exn =
    KeyError subscript
  | IndexError
  | TypeError
  | UnboundLocalError string
  | External string

section \<open>Built-in operations of Python used by the handler\<close>

subsection \<open>Decimal and hexadecimal digits\<close>

definition digit :: "nat \<Rightarrow> char" where
  "digit n = ''0123456789abcdef'' ! (n mod 16)"

fun dec :: "nat \<Rightarrow> string" where
  "dec n = (if n < 10 then [digit n] else dec (n div 10) @ [digit (n mod 10)])"

declare dec.simps [simp del]

definition int_str :: "int \<Rightarrow> string" where
  "int_str i = (if i < 0 then CHR ''-'' # dec (nat (- i)) else dec (nat i))"

definition hex2 :: "nat \<Rightarrow> string" where
  "hex2 n = [digit (n div 16), digit (n mod 16)]"

fun join :: "string \<Rightarrow> string list \<Rightarrow> string" where
  "join sep [] = []"
| "join sep [x] = x"
| "join sep (x # y # ys) = x @ sep @ join sep (y # ys)"

subsection \<open>\<^verbatim>\<open>repr\<close> and \<^verbatim>\<open>str\<close>\<close>

text \<open>
  \<^verbatim>\<open>repr\<close> of a string: single quotes unless the string holds a single quote and no double
  quote; the quote and the backslash are escaped, tab, newline and carriage return have
  their letters, every other non-printable code point is \<^verbatim>\<open>\xNN\<close>.  Below 256 the
  non-printable code points are the controls, 127 to 160 and 173.
\<close>

definition printable :: "char \<Rightarrow> bool" where
  "printable c = (let n = (of_char c :: nat) in (32 \<le> n \<and> n < 127) \<or> (161 \<le> n \<and> n \<noteq> 173))"

definition repr_char :: "char \<Rightarrow> char \<Rightarrow> string" where
  "repr_char q c =
     (if c = q \<or> c = CHR 0x5C then [CHR 0x5C, c]
      else if c = CHR 0x09 then [CHR 0x5C, CHR ''t'']
      else if c = CHR 0x0A then [CHR 0x5C, CHR ''n'']
      else if c = CHR 0x0D then [CHR 0x5C, CHR ''r'']
      else if printable c then [c]
      else [CHR 0x5C, CHR ''x''] @ hex2 (of_char c))"

definition str_repr :: "string \<Rightarrow> string" where
  "str_repr s =
     (let q = (if CHR 0x27 \<in> set s \<and> CHR 0x22 \<notin> set s then CHR 0x22 else CHR 0x27)
      in [q] @ concat (map (repr_char q) s) @ [q])"

primrec py_repr :: "json \<Rightarrow> string" where
  "py_repr JNull = ''None''"
| "py_repr (JBool b) = (if b then ''True'' else ''False'')"
| "py_repr (JInt i) = int_str i"
| "py_repr (JFloat r) = r"
| "py_repr (JStr s) = str_repr s"
| "py_repr (JArr xs) = ''['' @ join '', '' (map py_repr xs) @ '']''"
| "py_repr (JObj kvs) =
     ''{'' @ join '', '' (map (\<lambda>kr. str_repr (fst kr) @ '': '' @ snd kr)
                              (map (map_prod id py_repr) kvs)) @ ''}''"

text \<open>\<^verbatim>\<open>str(x)\<close>, also what an f-string puts for \<^verbatim>\<open>{x}\<close>: the string itself, else \<^verbatim>\<open>repr\<close>.\<close>

fun py_str :: "json \<Rightarrow> string" where
  "py_str (JStr s) = s"
| "py_str v = py_repr v"

subsection \<open>\<^verbatim>\<open>json.dumps\<close>\<close>

text \<open>
  With the default \<^verbatim>\<open>ensure_ascii=True\<close>, every character outside the range from space to
  tilde is escaped, as are the double quote and the backslash.
\<close>

definition json_escape_char :: "char \<Rightarrow> string" where
  "json_escape_char c =
     (if c = CHR 0x22 then [CHR 0x5C, CHR 0x22]
      else if c = CHR 0x5C then [CHR 0x5C, CHR 0x5C]
      else if c = CHR 0x0A then [CHR 0x5C, CHR ''n'']
      else if c = CHR 0x0D then [CHR 0x5C, CHR ''r'']
      else if c = CHR 0x09 then [CHR 0x5C, CHR ''t'']
      else if c = CHR 0x08 then [CHR 0x5C, CHR ''b'']
      else if c = CHR 0x0C then [CHR 0x5C, CHR ''f'']
      else if 32 \<le> (of_char c :: nat) \<and> (of_char c :: nat) < 127 then [c]
      else [CHR 0x5C, CHR ''u'', CHR ''0'', CHR ''0''] @ hex2 (of_char c))"

definition json_string :: "string \<Rightarrow> string" where
  "json_string s = [CHR 0x22] @ concat (map json_escape_char s) @ [CHR 0x22]"

definition json_float :: "string \<Rightarrow> string" where
  "json_float r =
     (if r = ''nan'' then ''NaN''
      else if r = ''inf'' then ''Infinity''
      else if r = ''-inf'' then ''-Infinity''
      else r)"

primrec json_dumps :: "json \<Rightarrow> string" where
  "json_dumps JNull = ''null''"
| "json_dumps (JBool b) = (if b then ''true'' else ''false'')"
| "json_dumps (JInt i) = int_str i"
| "json_dumps (JFloat r) = json_float r"
| "json_dumps (JStr s) = json_string s"
| "json_dumps (JArr xs) = ''['' @ join '', '' (map json_dumps xs) @ '']''"
| "json_dumps (JObj kvs) =
     ''{'' @ join '', '' (map (\<lambda>kr. json_string (fst kr) @ '': '' @ snd kr)
                              (map (map_prod id json_dumps) kvs)) @ ''}''"

subsection \<open>Membership, subscription, item assignment\<close>

fun starts_with :: "string \<Rightarrow> string \<Rightarrow> bool" where
  "starts_with s [] = True"
| "starts_with [] (p # ps) = False"
| "starts_with (c # cs) (p # ps) = (c = p \<and> starts_with cs ps)"

fun substring_of :: "string \<Rightarrow> string \<Rightarrow> bool" where
  "substring_of k [] = (k = [])"
| "substring_of k (c # cs) = (starts_with (c # cs) k \<or> substring_of k cs)"

text \<open>
  \<^verbatim>\<open>k in obj\<close> for a string \<open>k\<close>: a key test on a dictionary, an element test on a list, a
  substring test on a string, and a \<^verbatim>\<open>TypeError\<close> on every other value.
\<close>

fun py_in :: "string \<Rightarrow> json \<Rightarrow> exn + bool" where
  "py_in k (JObj kvs) = Inr (k \<in> set (map fst kvs))"
| "py_in k (JArr xs) = Inr (JStr k \<in> set xs)"
| "py_in k (JStr s) = Inr (substring_of k s)"
| "py_in k v = Inl TypeError"

text \<open>\<^verbatim>\<open>obj[k]\<close> as an expression.\<close>

fun getitem :: "json \<Rightarrow> subscript \<Rightarrow> exn + json" where
  "getitem (JObj kvs) (Key k) =
     (case map_of kvs k of None \<Rightarrow> Inl (KeyError (Key k)) | Some v \<Rightarrow> Inr v)"
| "getitem (JObj kvs) (Index i) = Inl (KeyError (Index i))"
| "getitem (JArr xs) (Index i) = (if i < length xs then Inr (xs ! i) else Inl IndexError)"
| "getitem (JArr xs) (Key k) = Inl TypeError"
| "getitem (JStr s) (Index i) = (if i < length s then Inr (JStr [s ! i]) else Inl IndexError)"
| "getitem (JStr s) (Key k) = Inl TypeError"
| "getitem v k = Inl TypeError"

text \<open>
  A dictionary store keeps the position of a key that is already there and appends a
  new key at the end.
\<close>

fun dict_setitem :: "(string \<times> json) list \<Rightarrow> string \<Rightarrow> json \<Rightarrow> (string \<times> json) list" where
  "dict_setitem [] k v = [(k, v)]"
| "dict_setitem (p # ps) k v = (if fst p = k then (k, v) # ps else p # dict_setitem ps k v)"

text \<open>\<^verbatim>\<open>obj[k] = v\<close> for a string \<open>k\<close>: only a dictionary takes it.\<close>

fun setitem :: "json \<Rightarrow> string \<Rightarrow> json \<Rightarrow> exn + json" where
  "setitem (JObj kvs) k v = Inr (JObj (dict_setitem kvs k v))"
| "setitem obj k v = Inl TypeError"

text \<open>
  \<^verbatim>\<open>obj[p1]...[pn][k] = v\<close>.  Python walks down by subscription and mutates the innermost
  dictionary in place.  The document comes fresh from \<^verbatim>\<open>json.load\<close>, a tree that shares no
  node, so the mutation is the rebuilt tree: \<open>put_child\<close> stores the changed child back
  where it was read.
\<close>

fun put_child :: "json \<Rightarrow> subscript \<Rightarrow> json \<Rightarrow> json" where
  "put_child (JObj kvs) (Key k) c = JObj (dict_setitem kvs k c)"
| "put_child (JArr xs) (Index i) c = JArr (xs[i := c])"
| "put_child obj p c = obj"

fun assign_at :: "json \<Rightarrow> subscript list \<Rightarrow> string \<Rightarrow> json \<Rightarrow> exn + json" where
  "assign_at obj [] k v = setitem obj k v"
| "assign_at obj (p # ps) k v =
     (case getitem obj p of
        Inl e \<Rightarrow> Inl e
      | Inr child \<Rightarrow>
          (case assign_at child ps k v of
             Inl e \<Rightarrow> Inl e
           | Inr child' \<Rightarrow> Inr (put_child obj p child')))"

fun get_at :: "json \<Rightarrow> subscript list \<Rightarrow> exn + json" where
  "get_at obj [] = Inr obj"
| "get_at obj (p # ps) = (case getitem obj p of Inl e \<Rightarrow> Inl e | Inr child \<Rightarrow> get_at child ps)"

subsection \<open>\<^verbatim>\<open>os.path.basename\<close> and \<^verbatim>\<open>os.path.splitext\<close> (POSIX)\<close>

text \<open>\<^verbatim>\<open>p.rfind(c)\<close>: the highest index of \<open>c\<close> in \<open>p\<close>, or \<open>-1\<close>.\<close>

fun rfind :: "string \<Rightarrow> char \<Rightarrow> int" where
  "rfind [] c = - 1"
| "rfind (x # xs) c =
     (let r = rfind xs c in if 0 \<le> r then r + 1 else if x = c then 0 else - 1)"

text \<open>\<^verbatim>\<open>i = p.rfind('/') + 1; return p[i:]\<close>\<close>

definition basename :: "string \<Rightarrow> string" where
  "basename p = (let i = rfind p CHR ''/'' + 1 in drop (nat i) p)"

text \<open>
  The loop of \<^verbatim>\<open>genericpath._splitext\<close> that skips leading dots: it returns the split at
  the first character that is not a dot, and falls through (\<open>None\<close>) when there is none
  before \<open>dotIndex\<close>.
\<close>

function splitext_loop :: "string \<Rightarrow> nat \<Rightarrow> nat \<Rightarrow> (string \<times> string) option" where
  "splitext_loop p filenameIndex dotIndex =
     (if filenameIndex < dotIndex then
        (if take 1 (drop filenameIndex p) \<noteq> ''.'' then Some (take dotIndex p, drop dotIndex p)
         else splitext_loop p (filenameIndex + 1) dotIndex)
      else None)"
  by pat_completeness auto
termination
  by (relation "measure (\<lambda>(p, filenameIndex, dotIndex). dotIndex - filenameIndex)") auto

declare splitext_loop.simps [simp del]

definition splitext :: "string \<Rightarrow> string \<times> string" where
  "splitext p =
     (let sepIndex = rfind p CHR ''/''; dotIndex = rfind p CHR ''.''
      in if dotIndex > sepIndex then
           (case splitext_loop p (nat (sepIndex + 1)) (nat dotIndex) of
              Some r \<Rightarrow> r
            | None \<Rightarrow> (p, []))
         else (p, []))"

text \<open>Both functions start with \<^verbatim>\<open>os.fspath\<close>, which refuses what is not a path.\<close>

fun fspath :: "json \<Rightarrow> exn + string" where
  "fspath (JStr s) = Inr s"
| "fspath v = Inl TypeError"

text \<open>\<^verbatim>\<open>'s3://' + x\<close>: a string takes only a string on its right.\<close>

fun str_concat :: "string \<Rightarrow> json \<Rightarrow> exn + string" where
  "str_concat a (JStr b) = Inr (a @ b)"
| "str_concat a v = Inl TypeError"

subsection \<open>\<^verbatim>\<open>datetime.now().strftime("%Y%m%d%H%M%S")\<close>\<close>

record datetime =
  year :: nat
  month :: nat
  day :: nat
  hour :: nat
  minute :: nat
  second :: nat
  microsecond :: nat

text \<open>
  The ranges a \<^verbatim>\<open>datetime\<close> object keeps its fields in, for a year of four digits.
  (A \<^verbatim>\<open>datetime\<close> can hold a year below 1000, which \<^verbatim>\<open>%Y\<close> pads to four digits on some
  platforms and not on others; no clock gives one.)
\<close>

definition valid_datetime :: "datetime \<Rightarrow> bool" where
  "valid_datetime d =
     (1000 \<le> year d \<and> year d \<le> 9999 \<and> 1 \<le> month d \<and> month d \<le> 12 \<and>
      1 \<le> day d \<and> day d \<le> 31 \<and> hour d < 24 \<and> minute d < 60 \<and> second d < 60 \<and>
      microsecond d < 1000000)"

definition zero_pad :: "nat \<Rightarrow> nat \<Rightarrow> string" where
  "zero_pad w n = replicate (w - length (dec n)) CHR ''0'' @ dec n"

definition strftime :: "datetime \<Rightarrow> string" where
  "strftime d =
     zero_pad 4 (year d) @ zero_pad 2 (month d) @ zero_pad 2 (day d) @
     zero_pad 2 (hour d) @ zero_pad 2 (minute d) @ zero_pad 2 (second d)"

section \<open>The collaborators of the handler\<close>

text \<open>
  What the handler reads from outside: the JSON parser, the clock, the process
  environment, the job template \<^verbatim>\<open>job.json\<close> (opened and parsed), and the client of the
  transcoding service.  A call that raises yields its exception.
  \<^item> \<open>boto3_client region endpoint_url\<close> is \<^verbatim>\<open>boto3.client('mediaconvert', ...)\<close>;
  \<^item> \<open>describe_endpoints region\<close> is the call on the first client;
  \<^item> \<open>create_job region endpoint_url Role UserMetadata Settings\<close> is the call on the
    second client.
\<close>

record world =
  json_loads :: "string \<Rightarrow> exn + json"
  now :: datetime
  environ :: "string \<Rightarrow> string option"
  load_job_json :: "exn + json"
  boto3_client :: "string \<Rightarrow> json option \<Rightarrow> exn option"
  describe_endpoints :: "string \<Rightarrow> exn + json"
  create_job :: "string \<Rightarrow> json \<Rightarrow> string \<Rightarrow> json \<Rightarrow> json \<Rightarrow> exn + json"

text \<open>What the handler does to the outside, in order.\<close>

datatype effect =
    Print string
  | PrintException exn
  | OpenJobJson
  | NewClient string "json option"
  | DescribeEndpoints string
  | CreateJob string json string json json

record response =
  statusCode :: int
  body :: string
  headers :: "(string \<times> string) list"

datatype outcome = Returned response | Raised exn

section \<open>Statements: state, exceptions, sequencing\<close>

text \<open>
  The part of the frame that the \<^verbatim>\<open>finally\<close> block reads, and the log of effects.
  \<open>var_outputData\<close> is \<open>None\<close> while the name \<^verbatim>\<open>outputData\<close> is unbound.
\<close>

record frame =
  trace :: "effect list"
  var_statusCode :: int
  var_outputData :: "(string \<times> json) list option"

type_synonym 'a prog = "frame \<Rightarrow> (exn + 'a) \<times> frame"

definition ret :: "'a \<Rightarrow> 'a prog" where
  "ret x = (\<lambda>s. (Inr x, s))"

definition lift :: "exn + 'a \<Rightarrow> 'a prog" where
  "lift r = (\<lambda>s. (r, s))"

definition emit :: "effect \<Rightarrow> unit prog" where
  "emit e = (\<lambda>s. (Inr (), s\<lparr>trace := trace s @ [e]\<rparr>))"

definition then_do :: "'a prog \<Rightarrow> ('a \<Rightarrow> 'b prog) \<Rightarrow> 'b prog" where
  "then_do m f = (\<lambda>s. case m s of (Inl e, s') \<Rightarrow> (Inl e, s') | (Inr x, s') \<Rightarrow> f x s')"

text \<open>\<^verbatim>\<open>os.environ[name]\<close>\<close>

definition environ_get :: "world \<Rightarrow> string \<Rightarrow> exn + string" where
  "environ_get w name =
     (case environ w name of None \<Rightarrow> Inl (KeyError (Key name)) | Some v \<Rightarrow> Inr v)"

text \<open>\<^verbatim>\<open>json.loads(x)\<close>: the argument must be a string.\<close>

definition loads :: "world \<Rightarrow> json \<Rightarrow> exn + json" where
  "loads w v = (case v of JStr s \<Rightarrow> json_loads w s | _ \<Rightarrow> Inl TypeError)"

definition new_client :: "world \<Rightarrow> string \<Rightarrow> json option \<Rightarrow> unit prog" where
  "new_client w region endpoint_url =
     then_do (emit (NewClient region endpoint_url)) (\<lambda>_.
       lift (case boto3_client w region endpoint_url of Some e \<Rightarrow> Inl e | None \<Rightarrow> Inr ()))"

text \<open>\<^verbatim>\<open>outputData = {}\<close> and \<^verbatim>\<open>outputData[k] = v\<close>\<close>

definition bind_outputData :: "unit prog" where
  "bind_outputData = (\<lambda>s. (Inr (), s\<lparr>var_outputData := Some []\<rparr>))"

definition store_outputData :: "string \<Rightarrow> json \<Rightarrow> unit prog" where
  "store_outputData k v =
     (\<lambda>s. case var_outputData s of
             None \<Rightarrow> (Inl (UnboundLocalError ''outputData''), s)
           | Some od \<Rightarrow> (Inr (), s\<lparr>var_outputData := Some (dict_setitem od k v)\<rparr>))"

section \<open>The handler\<close>

definition std_headers :: "(string \<times> string) list" where
  "std_headers =
     [(''Content-Type'', ''application/json''), (''Access-Control-Allow-Origin'', ''*'')]"

text \<open>
  Line 18: \<^verbatim>\<open>k1 not in reqBody or k2 not in reqBody or ...\<close>, evaluated from the left and
  stopping at the first key that is not in.
\<close>

fun any_not_in :: "string list \<Rightarrow> json \<Rightarrow> exn + bool" where
  "any_not_in [] reqBody = Inr False"
| "any_not_in (k # ks) reqBody =
     (case py_in k reqBody of
        Inl e \<Rightarrow> Inl e
      | Inr present \<Rightarrow> if \<not> present then Inr True else any_not_in ks reqBody)"

definition required_fields :: "string list" where
  "required_fields =
     [''video_source_url'', ''destination_bucket'', ''destination_bucket_region'', ''uniqueId'']"

definition missing_fields_response :: response where
  "missing_fields_response =
     \<lparr>statusCode = 400,
      body = json_dumps (JStr ''Error: Required fields are missing in request body''),
      headers = std_headers\<rparr>"

text \<open>Line 62, the f-string of the object key.\<close>

definition video_S3Key :: "string \<Rightarrow> string \<Rightarrow> string \<Rightarrow> string" where
  "video_S3Key uniqueId currentTime_in_string sourceS3Basename =
     ''/public/'' @ uniqueId @ ''/'' @ currentTime_in_string @ ''/HLS/'' @ sourceS3Basename"

text \<open>
  Line 76, the f-string of the public URL.  A replacement field formats its value as
  \<^verbatim>\<open>str\<close> does; the bucket is a string by then (line 32), the region is whatever value the
  request gave.
\<close>

definition final_video_hls_url :: "json \<Rightarrow> json \<Rightarrow> string \<Rightarrow> string" where
  "final_video_hls_url destination_bucket_name destination_bucket_region key =
     ''https://'' @ py_str destination_bucket_name @ ''.s3.'' @
     py_str destination_bucket_region @ ''.amazonaws.com'' @ key @ ''.m3u8''"

definition hls_group_settings :: "subscript list" where
  "hls_group_settings =
     [Key ''OutputGroups'', Index 0, Key ''OutputGroupSettings'', Key ''HlsGroupSettings'']"

text \<open>Lines 46 to 76, the body of the \<^verbatim>\<open>try\<close>.\<close>

definition try_body ::
  "world \<Rightarrow> string \<Rightarrow> json \<Rightarrow> json \<Rightarrow> string \<Rightarrow> string \<Rightarrow> string \<Rightarrow> string \<Rightarrow> string \<Rightarrow> string
     \<Rightarrow> unit prog" where
  "try_body w video_source_url destination_bucket_name destination_bucket_region uniqueId
     sourceS3Basename destinationS3 currentTime_in_string mediaConvertRole region =
     then_do (emit OpenJobJson) (\<lambda>_.
     then_do (lift (load_job_json w)) (\<lambda>jobSettings.
     then_do (new_client w region None) (\<lambda>_.
     then_do (emit (DescribeEndpoints region)) (\<lambda>_.
     then_do (lift (describe_endpoints w region)) (\<lambda>endpoints.
     then_do (lift (get_at endpoints [Key ''Endpoints'', Index 0, Key ''Url''])) (\<lambda>endpoint_url.
     then_do (new_client w region (Some endpoint_url)) (\<lambda>_.
     then_do (lift (assign_at jobSettings [Key ''Inputs'', Index 0] ''FileInput''
                      (JStr video_source_url))) (\<lambda>jobSettings.
     let key = video_S3Key uniqueId currentTime_in_string sourceS3Basename in
     then_do (lift (assign_at jobSettings hls_group_settings ''Destination''
                      (JStr (destinationS3 @ key)))) (\<lambda>jobSettings.
     let jobMetadata = JObj [(''assetID'', JStr uniqueId)] in
     then_do (emit (CreateJob region endpoint_url mediaConvertRole jobMetadata jobSettings)) (\<lambda>_.
     then_do (lift (create_job w region endpoint_url mediaConvertRole jobMetadata jobSettings))
       (\<lambda>job.
     then_do bind_outputData (\<lambda>_.
     then_do (lift (get_at jobSettings (hls_group_settings @ [Key ''Destination'']))) (\<lambda>d.
     then_do (store_outputData ''final_video_url'' d) (\<lambda>_.
     then_do (store_outputData ''thumbnail_url'' (JStr [])) (\<lambda>_.
     then_do (store_outputData ''video_s3_key'' (JStr key)) (\<lambda>_.
     then_do (store_outputData ''video_s3_path'' (JStr (destinationS3 @ key))) (\<lambda>_.
     store_outputData ''final_video_hls_url''
       (JStr (final_video_hls_url destination_bucket_name destination_bucket_region key))
     )))))))))))))))))"

text \<open>
  Lines 83 to 88.  The \<^verbatim>\<open>return\<close> of the \<^verbatim>\<open>finally\<close> block builds the response from
  \<^verbatim>\<open>statusCode\<close> and \<^verbatim>\<open>outputData\<close>; reading \<^verbatim>\<open>outputData\<close> while it is unbound raises.
\<close>

definition finally_return :: "response prog" where
  "finally_return =
     (\<lambda>s. case var_outputData s of
             None \<Rightarrow> (Inl (UnboundLocalError ''outputData''), s)
           | Some od \<Rightarrow>
               (Inr \<lparr>statusCode = var_statusCode s, body = json_dumps (JObj od),
                     headers = std_headers\<rparr>, s))"

text \<open>
  Lines 44 and 78 to 88.  An exception of the \<^verbatim>\<open>try\<close> body is printed, \<^verbatim>\<open>statusCode\<close>
  becomes 500 and the exception is raised again; then the \<^verbatim>\<open>finally\<close> block runs with that
  exception pending.  A \<^verbatim>\<open>return\<close> inside \<^verbatim>\<open>finally\<close> drops the pending exception, and an
  exception raised inside \<^verbatim>\<open>finally\<close> takes its place: either way the outcome is that of
  \<open>finally_return\<close>.
\<close>

definition try_except_finally :: "unit prog \<Rightarrow> response prog" where
  "try_except_finally block =
     (\<lambda>s. case block s of
             (Inr u, s') \<Rightarrow> finally_return s'
           | (Inl e, s') \<Rightarrow>
               finally_return (s'\<lparr>trace := trace s' @ [PrintException e], var_statusCode := 500\<rparr>))"

text \<open>Lines 18 to 88, what the handler does with the parsed request body.\<close>

definition process_request :: "world \<Rightarrow> json \<Rightarrow> response prog" where
  "process_request w reqBody =
     then_do (lift (any_not_in required_fields reqBody)) (\<lambda>missing.
     if missing then ret missing_fields_response
     else
     then_do (lift (getitem reqBody (Key ''video_source_url''))) (\<lambda>video_source_url.
     then_do (lift (getitem reqBody (Key ''destination_bucket''))) (\<lambda>destination_bucket_name.
     then_do (lift (getitem reqBody (Key ''destination_bucket_region''))) (\<lambda>destination_bucket_region.
     then_do (lift (getitem reqBody (Key ''uniqueId''))) (\<lambda>uniqueId_value.
     let uniqueId = py_str uniqueId_value in
     then_do (lift (fspath video_source_url)) (\<lambda>video_source_path.
     let sourceS3Basename = fst (splitext (basename video_source_path)) in
     then_do (lift (str_concat ''s3://'' destination_bucket_name)) (\<lambda>destinationS3.
     let currentTime_in_string = strftime (now w) in
     then_do (lift (environ_get w ''MediaConvertRole'')) (\<lambda>mediaConvertRole.
     then_do (lift (environ_get w ''AWS_DEFAULT_REGION'')) (\<lambda>region.
     then_do (\<lambda>s. (Inr (), s\<lparr>var_statusCode := 200\<rparr>)) (\<lambda>_.
     try_except_finally
       (try_body w video_source_path destination_bucket_name destination_bucket_region uniqueId
          sourceS3Basename destinationS3 currentTime_in_string mediaConvertRole region)
     ))))))))))"

text \<open>Lines 14 to 88.\<close>

definition handler_prog :: "world \<Rightarrow> json \<Rightarrow> response prog" where
  "handler_prog w event =
     then_do (lift (getitem event (Key ''body''))) (\<lambda>event_body.
     then_do (emit (Print (''Req Body - '' @ py_str event_body))) (\<lambda>_.
     then_do (lift (loads w event_body)) (\<lambda>reqBody.
     process_request w reqBody)))"

text \<open>
  A call of the handler: what it returns or raises, and the effects in order.  The frame
  starts with \<^verbatim>\<open>outputData\<close> unbound; \<^verbatim>\<open>statusCode\<close> is first read in the \<^verbatim>\<open>finally\<close>
  block, after line 38 has bound it, so its initial value is never seen.
\<close>

definition handler :: "world \<Rightarrow> json \<Rightarrow> outcome \<times> effect list" where
  "handler w event =
     (case handler_prog w event \<lparr>trace = [], var_statusCode = 0, var_outputData = None\<rparr> of
        (Inl e, s) \<Rightarrow> (Raised e, trace s)
      | (Inr r, s) \<Rightarrow> (Returned r, trace s))"

section \<open>Auxiliary notions for the proofs\<close>

text \<open>
  The dictionary that lines 71 to 76 leave in \<^verbatim>\<open>outputData\<close>, for a bucket name, a
  region value and an object key.
\<close>

definition output_fields :: "string \<Rightarrow> json \<Rightarrow> string \<Rightarrow> (string \<times> json) list" where
  "output_fields bucket region key =
     [(''final_video_url'', JStr (''s3://'' @ bucket @ key)),
      (''thumbnail_url'', JStr []),
      (''video_s3_key'', JStr key),
      (''video_s3_path'', JStr (''s3://'' @ bucket @ key)),
      (''final_video_hls_url'', JStr (final_video_hls_url (JStr bucket) region key))]"

text \<open>Reading a decimal numeral back, to show that the timestamp determines the clock.\<close>

definition digit_val :: "char \<Rightarrow> nat" where
  "digit_val c = of_char c - 48"

definition parse_dec :: "string \<Rightarrow> nat" where
  "parse_dec s = foldl (\<lambda>a c. 10 * a + digit_val c) 0 s"

text \<open>
  A statement sequence that only appends to the log of effects and never reads it: run
  from a log \<open>t\<close>, it does what it does from the empty log, with \<open>t\<close> in front.
\<close>

definition appends_only :: "'a prog \<Rightarrow> bool" where
  "appends_only m =
     (\<forall>s t. m (s\<lparr>trace := t\<rparr>) =
        (case m (s\<lparr>trace := []\<rparr>) of (r, s') \<Rightarrow> (r, s'\<lparr>trace := t @ trace s'\<rparr>)))"

section \<open>Sample requests and collaborators\<close>

text \<open>
  Concrete inputs on which the theorems below are instantiated: request bodies with the
  value \<^verbatim>\<open>json.loads\<close> gives for each, a job template with the slots of lines 59 and 64,
  and collaborators that all succeed.
\<close>

definition sample_body :: string where
  \<open>sample_body = ''{"video_source_url": "https://example.com/in/clip.mp4", "destination_bucket": "my-bucket", "destination_bucket_region": "us-east-1", "uniqueId": 42}''\<close>

definition sample_body_str_id :: string where
  \<open>sample_body_str_id = ''{"video_source_url": "https://example.com/in/clip.mp4", "destination_bucket": "my-bucket", "destination_bucket_region": "us-east-1", "uniqueId": "42"}''\<close>

definition sample_request :: "json \<Rightarrow> json" where
  "sample_request uniqueId =
     JObj [(''video_source_url'', JStr ''https://example.com/in/clip.mp4''),
           (''destination_bucket'', JStr ''my-bucket''),
           (''destination_bucket_region'', JStr ''us-east-1''),
           (''uniqueId'', uniqueId)]"

definition sample_json_loads :: "string \<Rightarrow> exn + json" where
  \<open>sample_json_loads s =
     (if s = sample_body then Inr (sample_request (JInt 42))
      else if s = sample_body_str_id then Inr (sample_request (JStr ''42''))
      else if s = ''{"uniqueId": 42}'' then Inr (JObj [(''uniqueId'', JInt 42)])
      else if s = ''[]'' then Inr (JArr [])
      else Inl (External ''JSONDecodeError''))\<close>

definition sample_template :: json where
  "sample_template =
     JObj [(''Inputs'', JArr [JObj [(''FileInput'', JStr [])]]),
           (''OutputGroups'',
              JArr [JObj [(''OutputGroupSettings'',
                JObj [(''HlsGroupSettings'', JObj [(''SegmentLength'', JInt 10)])])]])]"

definition sample_world :: world where
  "sample_world =
     \<lparr>json_loads = sample_json_loads,
      now = \<lparr>year = 2024, month = 1, day = 1, hour = 0, minute = 0, second = 0,
              microsecond = 0\<rparr>,
      environ = map_of [(''MediaConvertRole'', ''arn:aws:iam::1:role/mc''),
                        (''AWS_DEFAULT_REGION'', ''us-east-1'')],
      load_job_json = Inr sample_template,
      boto3_client = (\<lambda>region endpoint_url. None),
      describe_endpoints = (\<lambda>region.
        Inr (JObj [(''Endpoints'', JArr [JObj [(''Url'', JStr ''https://mc.example.com'')]])])),
      create_job = (\<lambda>region endpoint_url role metadata settings. Inr (JObj [(''Job'', JObj [])]))\<rparr>"

text \<open>The same, one second later.\<close>

definition sample_world_later :: world where
  "sample_world_later =
     sample_world\<lparr>now := \<lparr>year = 2024, month = 1, day = 1, hour = 0, minute = 0, second = 1,
                            microsecond = 0\<rparr>\<rparr>"

text \<open>The same, with a job submission that fails.\<close>

definition failing_world :: world where
  "failing_world =
     sample_world\<lparr>create_job :=
       (\<lambda>region endpoint_url role metadata settings. Inl (External ''ClientError''))\<rparr>"

definition sample_event :: json where
  "sample_event = JObj [(''body'', JStr sample_body)]"

definition sample_event_str_id :: json where
  "sample_event_str_id = JObj [(''body'', JStr sample_body_str_id)]"

definition partial_event :: json where
  \<open>partial_event = JObj [(''body'', JStr ''{"uniqueId": 42}'')]\<close>

definition array_event :: json where
  "array_event = JObj [(''body'', JStr ''[]'')]"

definition garbled_event :: json where
  "garbled_event = JObj [(''body'', JStr ''not json'')]"

definition sample_response :: response where
  \<open>sample_response =
     \<lparr>statusCode = 200,
      body = ''{"final_video_url": "s3://my-bucket/public/42/20240101000000/HLS/clip", "thumbnail_url": "", "video_s3_key": "/public/42/20240101000000/HLS/clip", "video_s3_path": "s3://my-bucket/public/42/20240101000000/HLS/clip", "final_video_hls_url": "https://my-bucket.s3.us-east-1.amazonaws.com/public/42/20240101000000/HLS/clip.m3u8"}'',
      headers = [(''Content-Type'', ''application/json''), (''Access-Control-Allow-Origin'', ''*'')]\<rparr>\<close>

definition sample_response_later :: response where
  \<open>sample_response_later =
     \<lparr>statusCode = 200,
      body = ''{"final_video_url": "s3://my-bucket/public/42/20240101000001/HLS/clip", "thumbnail_url": "", "video_s3_key": "/public/42/20240101000001/HLS/clip", "video_s3_path": "s3://my-bucket/public/42/20240101000001/HLS/clip", "final_video_hls_url": "https://my-bucket.s3.us-east-1.amazonaws.com/public/42/20240101000001/HLS/clip.m3u8"}'',
      headers = [(''Content-Type'', ''application/json''), (''Access-Control-Allow-Origin'', ''*'')]\<rparr>\<close>

definition bad_request_response :: response where
  \<open>bad_request_response =
     \<lparr>statusCode = 400,
      body = ''"Error: Required fields are missing in request body"'',
      headers = [(''Content-Type'', ''application/json''), (''Access-Control-Allow-Origin'', ''*'')]\<rparr>\<close>

section \<open>Lemmas\<close>

subsection \<open>Running statements\<close>

lemma then_do_lift: "then_do (lift r) f s = (case r of Inl e \<Rightarrow> (Inl e, s) | Inr x \<Rightarrow> f x s)"
  by (simp add: then_do_def lift_def split: sum.split)

lemma then_do_emit: "then_do (emit e) f s = f () (s\<lparr>trace := trace s @ [e]\<rparr>)"
  by (simp add: then_do_def emit_def)

lemma then_do_new_client:
  "then_do (new_client w region ep) f s =
     (case boto3_client w region ep of
        Some e \<Rightarrow> (Inl e, s\<lparr>trace := trace s @ [NewClient region ep]\<rparr>)
      | None \<Rightarrow> f () (s\<lparr>trace := trace s @ [NewClient region ep]\<rparr>))"
  by (simp add: new_client_def then_do_def emit_def lift_def split: option.split)

lemma then_do_bind_outputData:
  "then_do bind_outputData f s = f () (s\<lparr>var_outputData := Some []\<rparr>)"
  by (simp add: then_do_def bind_outputData_def)

lemma then_do_store_outputData:
  "var_outputData s = Some od \<Longrightarrow>
   then_do (store_outputData k v) f s = f () (s\<lparr>var_outputData := Some (dict_setitem od k v)\<rparr>)"
  by (simp add: then_do_def store_outputData_def)

lemma store_outputData_Some:
  "var_outputData s = Some od \<Longrightarrow>
   store_outputData k v s = (Inr (), s\<lparr>var_outputData := Some (dict_setitem od k v)\<rparr>)"
  by (simp add: store_outputData_def)

lemma assign_at_str: "assign_at (JStr s) ps k v \<noteq> Inr obj'"
proof (induction ps arbitrary: s obj')
  case Nil
  show ?case by simp
next
  case (Cons p ps)
  show ?case
  proof (cases p)
    case (Key x)
    then show ?thesis by simp
  next
    case (Index i)
    then show ?thesis using Cons.IH by (auto split: sum.splits)
  qed
qed

lemma map_of_dict_setitem_same: "map_of (dict_setitem kvs k v) k = Some v"
  by (induction kvs) auto

lemma getitem_put_child:
  assumes "getitem obj p = Inr child" "\<forall>s. obj \<noteq> JStr s"
  shows "getitem (put_child obj p c) p = Inr c"
  using assms
  by (cases obj; cases p) (auto simp: map_of_dict_setitem_same split: if_splits option.splits)

lemma get_at_assign_at:
  "assign_at obj ps k v = Inr obj' \<Longrightarrow> get_at obj' (ps @ [Key k]) = Inr v"
proof (induction ps arbitrary: obj obj')
  case Nil
  then show ?case by (cases obj) (auto simp: map_of_dict_setitem_same)
next
  case (Cons p ps)
  from Cons.prems obtain child child' where
    g: "getitem obj p = Inr child" and a: "assign_at child ps k v = Inr child'"
    and o: "obj' = put_child obj p child'"
    by (auto split: sum.splits)
  have ns: "\<forall>s. obj \<noteq> JStr s"
  proof (intro allI notI)
    fix s assume "obj = JStr s"
    with g obtain c where "child = JStr c" by (cases p) (auto split: if_splits)
    with a assign_at_str show False by blast
  qed
  from getitem_put_child [OF g ns] o have "getitem obj' p = Inr child'" by simp
  with Cons.IH [OF a] show ?case by simp
qed

lemma try_body_run:
  assumes "var_outputData s = None"
  shows "case try_body w url bucket region uid base dest ts role aws_region s of
           (Inl e, s') \<Rightarrow> var_outputData s' = None
         | (Inr u, s') \<Rightarrow>
             (\<exists>endpoint_url settings.
                get_at settings (hls_group_settings @ [Key ''Destination'']) =
                  Inr (JStr (dest @ video_S3Key uid ts base)) \<and>
                s' = s\<lparr>trace := trace s @
                         [OpenJobJson, NewClient aws_region None, DescribeEndpoints aws_region,
                          NewClient aws_region (Some endpoint_url),
                          CreateJob aws_region endpoint_url role
                            (JObj [(''assetID'', JStr uid)]) settings],
                       var_outputData := Some
               [(''final_video_url'', JStr (dest @ video_S3Key uid ts base)),
                (''thumbnail_url'', JStr []),
                (''video_s3_key'', JStr (video_S3Key uid ts base)),
                (''video_s3_path'', JStr (dest @ video_S3Key uid ts base)),
                (''final_video_hls_url'',
                   JStr (final_video_hls_url bucket region (video_S3Key uid ts base)))]\<rparr>)"
  using assms
  unfolding try_body_def Let_def
  apply (simp add: then_do_lift then_do_emit then_do_new_client then_do_bind_outputData
      then_do_store_outputData store_outputData_Some
      split: sum.split option.split)
  apply (auto simp: get_at_assign_at)
  apply (intro exI conjI)
   apply (erule get_at_assign_at)
  apply (rule refl)
  done

lemma try_except_finally_try_body:
  assumes "var_outputData s = None"
  shows "case try_body w url bucket region uid base dest ts role aws_region s of
           (Inl e, s1) \<Rightarrow>
             try_except_finally (try_body w url bucket region uid base dest ts role aws_region) s =
               (Inl (UnboundLocalError ''outputData''),
                s1\<lparr>trace := trace s1 @ [PrintException e], var_statusCode := 500\<rparr>)
         | (Inr u, s1) \<Rightarrow>
             (\<exists>endpoint_url settings.
                get_at settings (hls_group_settings @ [Key ''Destination'']) =
                  Inr (JStr (dest @ video_S3Key uid ts base)) \<and>
                trace s1 = trace s @
                         [OpenJobJson, NewClient aws_region None, DescribeEndpoints aws_region,
                          NewClient aws_region (Some endpoint_url),
                          CreateJob aws_region endpoint_url role
                            (JObj [(''assetID'', JStr uid)]) settings] \<and>
                try_except_finally (try_body w url bucket region uid base dest ts role aws_region) s =
                  (Inr \<lparr>statusCode = var_statusCode s,
                     body = json_dumps (JObj
               [(''final_video_url'', JStr (dest @ video_S3Key uid ts base)),
                (''thumbnail_url'', JStr []),
                (''video_s3_key'', JStr (video_S3Key uid ts base)),
                (''video_s3_path'', JStr (dest @ video_S3Key uid ts base)),
                (''final_video_hls_url'',
                   JStr (final_video_hls_url bucket region (video_S3Key uid ts base)))]),
                     headers = std_headers\<rparr>, s1))"
proof (cases "try_body w url bucket region uid base dest ts role aws_region s")
  case (Pair res s1)
  note run = try_body_run [OF assms, where w = w and url = url and bucket = bucket and region = region
      and uid = uid and base = base and dest = dest and ts = ts and role = role
      and aws_region = aws_region]
  show ?thesis
  proof (cases res)
    case (Inl e)
    with Pair run have "var_outputData s1 = None" by simp
    with Pair Inl show ?thesis
      by (simp add: try_except_finally_def finally_return_def)
  next
    case (Inr u)
    with Pair run obtain endpoint_url settings where
      g: "get_at settings (hls_group_settings @ [Key ''Destination'']) =
            Inr (JStr (dest @ video_S3Key uid ts base))"
      and s1: "s1 = s\<lparr>trace := trace s @
                         [OpenJobJson, NewClient aws_region None, DescribeEndpoints aws_region,
                          NewClient aws_region (Some endpoint_url),
                          CreateJob aws_region endpoint_url role
                            (JObj [(''assetID'', JStr uid)]) settings],
                       var_outputData := Some
               [(''final_video_url'', JStr (dest @ video_S3Key uid ts base)),
                (''thumbnail_url'', JStr []),
                (''video_s3_key'', JStr (video_S3Key uid ts base)),
                (''video_s3_path'', JStr (dest @ video_S3Key uid ts base)),
                (''final_video_hls_url'',
                   JStr (final_video_hls_url bucket region (video_S3Key uid ts base)))]\<rparr>"
      by auto
    have "try_except_finally (try_body w url bucket region uid base dest ts role aws_region) s =
            finally_return s1"
      using Pair Inr by (simp add: try_except_finally_def)
    with g s1 Pair Inr show ?thesis
      by (auto simp: finally_return_def simp del: json_dumps.simps)
  qed
qed

lemma try_except_finally_Returned:
  assumes "try_except_finally (try_body w url bucket region uid base dest ts role aws_region) s =
             (Inr r, s')"
    and "var_outputData s = None"
  shows "\<exists>endpoint_url settings.
           get_at settings (hls_group_settings @ [Key ''Destination'']) =
             Inr (JStr (dest @ video_S3Key uid ts base)) \<and>
           trace s' = trace s @
                         [OpenJobJson, NewClient aws_region None, DescribeEndpoints aws_region,
                          NewClient aws_region (Some endpoint_url),
                          CreateJob aws_region endpoint_url role
                            (JObj [(''assetID'', JStr uid)]) settings] \<and>
           r = \<lparr>statusCode = var_statusCode s,
                 body = json_dumps (JObj
               [(''final_video_url'', JStr (dest @ video_S3Key uid ts base)),
                (''thumbnail_url'', JStr []),
                (''video_s3_key'', JStr (video_S3Key uid ts base)),
                (''video_s3_path'', JStr (dest @ video_S3Key uid ts base)),
                (''final_video_hls_url'',
                   JStr (final_video_hls_url bucket region (video_S3Key uid ts base)))]),
                 headers = std_headers\<rparr>"
  using try_except_finally_try_body [OF assms(2), where w = w and url = url and bucket = bucket
      and region = region and uid = uid and base = base and dest = dest and ts = ts
      and role = role and aws_region = aws_region] assms(1)
  by (cases "try_body w url bucket region uid base dest ts role aws_region s")
     (auto split: sum.splits simp del: json_dumps.simps)

lemma fspath_Inr: "fspath v = Inr p \<longleftrightarrow> v = JStr p"
  by (cases v) auto

lemma str_concat_Inr: "str_concat a v = Inr r \<longleftrightarrow> (\<exists>b. v = JStr b \<and> r = a @ b)"
  by (cases v) auto

lemma process_request_Returned:
  assumes "process_request w reqBody s = (Inr r, s')" "var_outputData s = None"
  shows "(any_not_in required_fields reqBody = Inr True \<and> r = missing_fields_response \<and> s' = s) \<or>
         (\<exists>url bucket region uid role aws_region endpoint_url settings.
            any_not_in required_fields reqBody = Inr False \<and>
            getitem reqBody (Key ''video_source_url'') = Inr (JStr url) \<and>
            getitem reqBody (Key ''destination_bucket'') = Inr (JStr bucket) \<and>
            getitem reqBody (Key ''destination_bucket_region'') = Inr region \<and>
            getitem reqBody (Key ''uniqueId'') = Inr uid \<and>
            get_at settings (hls_group_settings @ [Key ''Destination'']) =
              Inr (JStr (''s3://'' @ bucket @
                      video_S3Key (py_str uid) (strftime (now w)) (fst (splitext (basename url))))) \<and>
            trace s' = trace s @
                         [OpenJobJson, NewClient aws_region None, DescribeEndpoints aws_region,
                          NewClient aws_region (Some endpoint_url),
                          CreateJob aws_region endpoint_url role
                            (JObj [(''assetID'', JStr (py_str uid))]) settings] \<and>
            r = \<lparr>statusCode = 200,
                  body = json_dumps (JObj
                    [(''final_video_url'', JStr (''s3://'' @ bucket @
                        video_S3Key (py_str uid) (strftime (now w)) (fst (splitext (basename url))))),
                     (''thumbnail_url'', JStr []),
                     (''video_s3_key'', JStr (video_S3Key (py_str uid) (strftime (now w))
                         (fst (splitext (basename url))))),
                     (''video_s3_path'', JStr (''s3://'' @ bucket @
                        video_S3Key (py_str uid) (strftime (now w)) (fst (splitext (basename url))))),
                     (''final_video_hls_url'', JStr (final_video_hls_url (JStr bucket) region
                        (video_S3Key (py_str uid) (strftime (now w))
                           (fst (splitext (basename url))))))]),
                  headers = std_headers\<rparr>)"
proof -
  show ?thesis
    using assms
    unfolding process_request_def Let_def
    apply (simp add: then_do_lift then_do_def [of "\<lambda>s. (Inr (), s\<lparr>var_statusCode := 200\<rparr>)"] ret_def
        split: sum.splits if_splits del: json_dumps.simps)
    apply (auto simp: fspath_Inr str_concat_Inr dest!: try_except_finally_Returned
        simp del: json_dumps.simps)
    done
qed

lemma handler_Returned:
  assumes "handler w event = (Returned r, tr)"
  shows "\<exists>event_body reqBody.
           getitem event (Key ''body'') = Inr event_body \<and> loads w event_body = Inr reqBody \<and>
           ((any_not_in required_fields reqBody = Inr True \<and> r = missing_fields_response \<and>
             tr = [Print (''Req Body - '' @ py_str event_body)]) \<or>
            (\<exists>url bucket region uid role aws_region endpoint_url settings.
            any_not_in required_fields reqBody = Inr False \<and>
            getitem reqBody (Key ''video_source_url'') = Inr (JStr url) \<and>
            getitem reqBody (Key ''destination_bucket'') = Inr (JStr bucket) \<and>
            getitem reqBody (Key ''destination_bucket_region'') = Inr region \<and>
            getitem reqBody (Key ''uniqueId'') = Inr uid \<and>
            get_at settings (hls_group_settings @ [Key ''Destination'']) =
              Inr (JStr (''s3://'' @ bucket @
                      video_S3Key (py_str uid) (strftime (now w)) (fst (splitext (basename url))))) \<and>
            tr = [Print (''Req Body - '' @ py_str event_body),
                  OpenJobJson, NewClient aws_region None, DescribeEndpoints aws_region,
                          NewClient aws_region (Some endpoint_url),
                          CreateJob aws_region endpoint_url role
                            (JObj [(''assetID'', JStr (py_str uid))]) settings] \<and>
            r = \<lparr>statusCode = 200,
                  body = json_dumps (JObj
                    [(''final_video_url'', JStr (''s3://'' @ bucket @
                        video_S3Key (py_str uid) (strftime (now w)) (fst (splitext (basename url))))),
                     (''thumbnail_url'', JStr []),
                     (''video_s3_key'', JStr (video_S3Key (py_str uid) (strftime (now w))
                         (fst (splitext (basename url))))),
                     (''video_s3_path'', JStr (''s3://'' @ bucket @
                        video_S3Key (py_str uid) (strftime (now w)) (fst (splitext (basename url))))),
                     (''final_video_hls_url'', JStr (final_video_hls_url (JStr bucket) region
                        (video_S3Key (py_str uid) (strftime (now w))
                           (fst (splitext (basename url))))))]),
                  headers = std_headers\<rparr>))"
proof -
  let ?s0 = "\<lparr>trace = [], var_statusCode = 0, var_outputData = None\<rparr>"
  from assms obtain s' where run: "handler_prog w event ?s0 = (Inr r, s')" and tr: "tr = trace s'"
    by (auto simp: handler_def split: prod.splits sum.splits)
  from run obtain event_body reqBody where
    eb: "getitem event (Key ''body'') = Inr event_body" and
    rb: "loads w event_body = Inr reqBody" and
    pr: "process_request w reqBody (?s0\<lparr>trace := [Print (''Req Body - '' @ py_str event_body)]\<rparr>)
           = (Inr r, s')"
    by (auto simp: handler_prog_def then_do_lift then_do_emit split: sum.splits)
  have "var_outputData (?s0\<lparr>trace := [Print (''Req Body - '' @ py_str event_body)]\<rparr>) = None"
    by simp
  note P = process_request_Returned [OF pr this]
  show ?thesis
    apply (rule exI [of _ event_body], rule exI [of _ reqBody])
    apply (insert P eb rb tr)
    apply (simp del: json_dumps.simps)
    apply (erule disjE)
     apply simp
    apply (rule disjI2)
    apply (elim exE conjE)
    apply (intro exI conjI)
            apply assumption+
    done
qed

subsection \<open>Timestamps\<close>

lemma digit_lt10: "n < 10 \<Longrightarrow> digit n \<in> set ''0123456789'' \<and> digit_val (digit n) = n"
proof -
  assume "n < 10"
  moreover have "\<forall>k\<in>set [0..<10]. digit k \<in> set ''0123456789'' \<and> digit_val (digit k) = k"
    by code_simp
  ultimately show ?thesis by simp
qed

lemma dec_digits: "set (dec n) \<subseteq> set ''0123456789''"
proof (induction n rule: dec.induct)
  case (1 n)
  show ?case
  proof (cases "n < 10")
    case True
    then show ?thesis using digit_lt10 [of n] by (subst dec.simps) simp
  next
    case False
    have "n mod 10 < 10" by simp
    from digit_lt10 [OF this] 1 [OF False] False show ?thesis
      by (subst dec.simps) simp
  qed
qed

lemma parse_dec_dec: "parse_dec (dec n) = n"
proof (induction n rule: dec.induct)
  case (1 n)
  show ?case
  proof (cases "n < 10")
    case True
    then show ?thesis using digit_lt10 [of n] by (subst dec.simps) (simp add: parse_dec_def)
  next
    case False
    have "n mod 10 < 10" by simp
    from digit_lt10 [OF this] 1 [OF False] False show ?thesis
      by (subst dec.simps) (simp add: parse_dec_def)
  qed
qed

lemma length_dec: "0 < k \<Longrightarrow> n < 10 ^ k \<Longrightarrow> length (dec n) \<le> k"
proof (induction k arbitrary: n)
  case 0
  then show ?case by simp
next
  case (Suc k)
  show ?case
  proof (cases "n < 10")
    case True
    then show ?thesis by (subst dec.simps) simp
  next
    case False
    with Suc.prems have k: "0 < k" by (cases k) auto
    from Suc.prems have "n div 10 < 10 ^ k" by (simp add: less_mult_imp_div_less mult.commute)
    from Suc.IH [OF k this] False show ?thesis by (subst dec.simps) simp
  qed
qed

lemma parse_dec_zero_pad: "parse_dec (zero_pad w n) = n"
proof -
  have "foldl (\<lambda>a c. 10 * a + digit_val c) 0 (replicate k CHR ''0'') = 0" for k
    by (induction k) (simp_all add: digit_val_def)
  then show ?thesis
    using parse_dec_dec [of n] by (simp add: zero_pad_def parse_dec_def)
qed

lemma length_zero_pad: "0 < w \<Longrightarrow> n < 10 ^ w \<Longrightarrow> length (zero_pad w n) = w"
  using length_dec [of w n] by (simp add: zero_pad_def)

lemma zero_pad_digits: "set (zero_pad w n) \<subseteq> set ''0123456789''"
  using dec_digits [of n] by (auto simp: zero_pad_def)

lemma strftime_length: "valid_datetime d \<Longrightarrow> length (strftime d) = 14"
  by (simp add: strftime_def valid_datetime_def length_zero_pad)

lemma strftime_digits: "set (strftime d) \<subseteq> set ''0123456789''"
  unfolding strftime_def set_append
  by (intro Un_least zero_pad_digits)

lemma strftime_inj:
  assumes "valid_datetime d" "valid_datetime d'" "strftime d = strftime d'"
  shows "year d = year d' \<and> month d = month d' \<and> day d = day d' \<and> hour d = hour d' \<and>
         minute d = minute d' \<and> second d = second d'"
proof -
  from assms have
    "zero_pad 4 (year d) = zero_pad 4 (year d') \<and> zero_pad 2 (month d) = zero_pad 2 (month d') \<and>
     zero_pad 2 (day d) = zero_pad 2 (day d') \<and> zero_pad 2 (hour d) = zero_pad 2 (hour d') \<and>
     zero_pad 2 (minute d) = zero_pad 2 (minute d') \<and> zero_pad 2 (second d) = zero_pad 2 (second d')"
    by (simp add: strftime_def valid_datetime_def length_zero_pad)
  then show ?thesis
    by (metis parse_dec_zero_pad)
qed

subsection \<open>Paths\<close>









subsection \<open>Statements never read the log\<close>

lemma appends_only_lift: "appends_only (lift r)"
  by (simp add: appends_only_def lift_def)

lemma appends_only_ret: "appends_only (ret x)"
  by (simp add: appends_only_def ret_def)

lemma appends_only_emit: "appends_only (emit e)"
  by (simp add: appends_only_def emit_def)

lemma appends_onlyD:
  assumes "appends_only m" "m (s\<lparr>trace := []\<rparr>) = (r, s')"
  shows "m (s\<lparr>trace := t\<rparr>) = (r, s'\<lparr>trace := t @ trace s'\<rparr>)"
proof -
  from assms(1) have
    "m (s\<lparr>trace := t\<rparr>) = (case m (s\<lparr>trace := []\<rparr>) of (r, s') \<Rightarrow> (r, s'\<lparr>trace := t @ trace s'\<rparr>))"
    unfolding appends_only_def by blast
  also have "\<dots> = (r, s'\<lparr>trace := t @ trace s'\<rparr>)" by (simp only: assms(2) prod.case)
  finally show ?thesis .
qed

lemma appends_only_then_do:
  assumes m: "appends_only m" and f: "\<And>x. appends_only (f x)"
  shows "appends_only (then_do m f)"
  unfolding appends_only_def
proof (intro allI)
  fix s :: frame and t
  obtain r s1 where m0: "m (s\<lparr>trace := []\<rparr>) = (r, s1)" by (cases "m (s\<lparr>trace := []\<rparr>)")
  from appends_onlyD [OF m m0] have mt: "m (s\<lparr>trace := t\<rparr>) = (r, s1\<lparr>trace := t @ trace s1\<rparr>)" .
  show "then_do m f (s\<lparr>trace := t\<rparr>) =
          (case then_do m f (s\<lparr>trace := []\<rparr>) of (r, s') \<Rightarrow> (r, s'\<lparr>trace := t @ trace s'\<rparr>))"
  proof (cases r)
    case (Inl e)
    with m0 mt show ?thesis by (simp add: then_do_def)
  next
    case (Inr x)
    obtain r2 s2 where f0: "f x (s1\<lparr>trace := []\<rparr>) = (r2, s2)"
      by (cases "f x (s1\<lparr>trace := []\<rparr>)")
    from appends_onlyD [OF f f0] have ft: "f x (s1\<lparr>trace := u\<rparr>) = (r2, s2\<lparr>trace := u @ trace s2\<rparr>)" for u .
    from ft [of "trace s1"] have "f x s1 = (r2, s2\<lparr>trace := trace s1 @ trace s2\<rparr>)" by simp
    with Inr m0 mt ft [of "t @ trace s1"] show ?thesis by (simp add: then_do_def)
  qed
qed

lemma appends_only_new_client: "appends_only (new_client w region ep)"
  unfolding new_client_def
  by (intro appends_only_then_do appends_only_emit appends_only_lift)

lemma appends_only_bind_outputData: "appends_only bind_outputData"
  by (simp add: appends_only_def bind_outputData_def)

lemma appends_only_store_outputData: "appends_only (store_outputData k v)"
  by (simp add: appends_only_def store_outputData_def split: option.split)

lemma appends_only_finally_return: "appends_only finally_return"
  by (simp add: appends_only_def finally_return_def split: option.split del: json_dumps.simps)

lemma appends_only_try_body:
  "appends_only (try_body w url bucket region uid base dest ts role aws_region)"
  unfolding try_body_def Let_def
  by (intro appends_only_then_do appends_only_emit appends_only_lift appends_only_new_client
      appends_only_bind_outputData appends_only_store_outputData)

lemma appends_only_try_except_finally:
  assumes "appends_only block"
  shows "appends_only (try_except_finally block)"
  unfolding appends_only_def
proof (intro allI)
  fix s :: frame and t
  obtain r s1 where b0: "block (s\<lparr>trace := []\<rparr>) = (r, s1)" by (cases "block (s\<lparr>trace := []\<rparr>)")
  from appends_onlyD [OF assms b0] have bt: "block (s\<lparr>trace := t\<rparr>) = (r, s1\<lparr>trace := t @ trace s1\<rparr>)" .
  show "try_except_finally block (s\<lparr>trace := t\<rparr>) =
          (case try_except_finally block (s\<lparr>trace := []\<rparr>) of
             (r, s') \<Rightarrow> (r, s'\<lparr>trace := t @ trace s'\<rparr>))"
    using b0 bt
    by (cases r) (simp_all add: try_except_finally_def finally_return_def split: option.split del: json_dumps.simps)
qed

lemma appends_only_process_request: "appends_only (process_request w reqBody)"
proof -
  have set_status: "appends_only (\<lambda>s. (Inr (), s\<lparr>var_statusCode := 200\<rparr>))"
    by (simp add: appends_only_def)
  have ite: "appends_only (if b then m else m')" if "appends_only m" "appends_only m'"
    for b and m m' :: "response prog"
    using that by simp
  show ?thesis
    unfolding process_request_def Let_def
    by (intro appends_only_then_do appends_only_lift ite appends_only_ret set_status
        appends_only_try_except_finally appends_only_try_body)
qed

subsection \<open>Evaluated runs\<close>

lemma sample_run: "fst (handler sample_world sample_event) = Returned sample_response"
  by code_simp

lemma sample_run_later: "fst (handler sample_world_later sample_event) = Returned sample_response_later"
  by code_simp

lemma any_not_in_JObj:
  "any_not_in ks (JObj kvs) = Inr (\<exists>k\<in>set ks. k \<notin> set (map fst kvs))"
  by (induction ks) auto

lemma missing_fields_response_eq: "missing_fields_response = bad_request_response"
  by code_simp

subsection \<open>What a returned response tells\<close>

lemma handler_success:
  assumes "handler w event = (Returned r, tr)" and "statusCode r = 200"
  obtains event_body reqBody url bucket region uid role aws_region endpoint_url settings key
  where "getitem event (Key ''body'') = Inr event_body"
    and "loads w event_body = Inr reqBody"
    and "getitem reqBody (Key ''video_source_url'') = Inr (JStr url)"
    and "getitem reqBody (Key ''destination_bucket'') = Inr (JStr bucket)"
    and "getitem reqBody (Key ''destination_bucket_region'') = Inr region"
    and "getitem reqBody (Key ''uniqueId'') = Inr uid"
    and "key = video_S3Key (py_str uid) (strftime (now w)) (fst (splitext (basename url)))"
    and "get_at settings (hls_group_settings @ [Key ''Destination'']) =
           Inr (JStr (''s3://'' @ bucket @ key))"
    and "tr = [Print (''Req Body - '' @ py_str event_body),
               OpenJobJson, NewClient aws_region None, DescribeEndpoints aws_region,
               NewClient aws_region (Some endpoint_url),
               CreateJob aws_region endpoint_url role
                 (JObj [(''assetID'', JStr (py_str uid))]) settings]"
    and "body r = json_dumps (JObj (output_fields bucket region key))"
proof -
  have "statusCode missing_fields_response \<noteq> 200"
    by (simp add: missing_fields_response_def)
  with assms(2) have "r \<noteq> missing_fields_response" by auto
  with handler_Returned [OF assms(1)] that show thesis
    apply (elim exE conjE disjE)
     apply simp
    apply (simp add: output_fields_def del: json_dumps.simps)
    done
qed

lemma map_of_output_fields:
  "map_of (output_fields bucket region key) ''final_video_url'' = Some (JStr (''s3://'' @ bucket @ key))"
  "map_of (output_fields bucket region key) ''thumbnail_url'' = Some (JStr [])"
  "map_of (output_fields bucket region key) ''video_s3_key'' = Some (JStr key)"
  "map_of (output_fields bucket region key) ''video_s3_path'' = Some (JStr (''s3://'' @ bucket @ key))"
  "map_of (output_fields bucket region key) ''final_video_hls_url'' =
     Some (JStr (final_video_hls_url (JStr bucket) region key))"
  by (simp_all add: output_fields_def)

lemma handler_returns_400_or_200:
  assumes "handler w event = (Returned r, tr)"
  shows "(statusCode r = 400 \<and> r = missing_fields_response) \<or> statusCode r = 200"
  using handler_Returned [OF assms]
  by (elim exE conjE disjE) (simp_all add: missing_fields_response_def del: json_dumps.simps)

lemma handler_pair: "fst (handler w event) = x \<Longrightarrow> handler w event = (x, snd (handler w event))"
  by (cases "handler w event") simp

lemma strftime_fields:
  assumes "valid_datetime d"
  shows "parse_dec (take 4 (strftime d)) = year d \<and>
         parse_dec (take 2 (drop 4 (strftime d))) = month d \<and>
         parse_dec (take 2 (drop 6 (strftime d))) = day d \<and>
         parse_dec (take 2 (drop 8 (strftime d))) = hour d \<and>
         parse_dec (take 2 (drop 10 (strftime d))) = minute d \<and>
         parse_dec (take 2 (drop 12 (strftime d))) = second d"
proof -
  from assms have l:
    "length (zero_pad 4 (year d)) = 4" "length (zero_pad 2 (month d)) = 2"
    "length (zero_pad 2 (day d)) = 2" "length (zero_pad 2 (hour d)) = 2"
    "length (zero_pad 2 (minute d)) = 2" "length (zero_pad 2 (second d)) = 2"
    by (simp_all add: valid_datetime_def length_zero_pad)
  show ?thesis
    by (simp add: strftime_def l parse_dec_zero_pad)
qed

lemma video_S3Key_inj: "video_S3Key uid ts base = video_S3Key uid ts' base \<longleftrightarrow> ts = ts'"
  by (simp add: video_S3Key_def)

lemma loads_Inr: "loads w v = Inr x \<longleftrightarrow> (\<exists>s. v = JStr s \<and> json_loads w s = Inr x)"
  by (cases v) (auto simp: loads_def)

lemma any_not_in_container:
  assumes "any_not_in (k # ks) v = Inr b"
  shows "(\<exists>kvs. v = JObj kvs) \<or> (\<exists>xs. v = JArr xs) \<or> (\<exists>t. v = JStr t)"
  using assms by (cases v) auto

lemma handler_no_body:
  assumes "getitem event (Key ''body'') = Inl e"
  shows "handler w event = (Raised e, [])"
  using assms by (simp add: handler_def handler_prog_def then_do_lift)

lemma handler_unparsed:
  assumes "getitem event (Key ''body'') = Inr event_body" and "loads w event_body = Inl e"
  shows "handler w event = (Raised e, [Print (''Req Body - '' @ py_str event_body)])"
  using assms by (simp add: handler_def handler_prog_def then_do_lift then_do_emit)

lemma array_run:
  "handler sample_world array_event = (Returned bad_request_response, [Print ''Req Body - []''])"
  by code_simp

lemma process_request_uniqueId_str:
  assumes "map_of kvs1 ''uniqueId'' = Some v"
    and "map_of kvs2 ''uniqueId'' = Some (JStr (py_str v))"
    and "map_of kvs1 ''video_source_url'' = map_of kvs2 ''video_source_url''"
    and "map_of kvs1 ''destination_bucket'' = map_of kvs2 ''destination_bucket''"
    and "map_of kvs1 ''destination_bucket_region'' = map_of kvs2 ''destination_bucket_region''"
  shows "process_request w (JObj kvs1) = process_request w (JObj kvs2)"
proof -
  have mem: "k \<in> set (map fst kvs) \<longleftrightarrow> map_of kvs k \<noteq> None" for k and kvs :: "(string \<times> json) list"
    by (simp add: map_of_eq_None_iff)
  have "any_not_in required_fields (JObj kvs1) = any_not_in required_fields (JObj kvs2)"
    unfolding any_not_in_JObj mem using assms by (simp add: required_fields_def)
  moreover have "getitem (JObj kvs1) (Key ''video_source_url'') =
                 getitem (JObj kvs2) (Key ''video_source_url'')"
    "getitem (JObj kvs1) (Key ''destination_bucket'') =
     getitem (JObj kvs2) (Key ''destination_bucket'')"
    "getitem (JObj kvs1) (Key ''destination_bucket_region'') =
     getitem (JObj kvs2) (Key ''destination_bucket_region'')"
    "getitem (JObj kvs1) (Key ''uniqueId'') = Inr v"
    "getitem (JObj kvs2) (Key ''uniqueId'') = Inr (JStr (py_str v))"
    using assms by simp_all
  ultimately show ?thesis
    unfolding process_request_def
    by (simp only: then_do_lift [abs_def] Let_def sum.case py_str.simps)
qed

lemma handler_via_process_request:
  assumes "getitem event (Key ''body'') = Inr (JStr s)" and "json_loads w s = Inr reqBody"
  shows "handler w event =
           (case process_request w reqBody \<lparr>trace = [], var_statusCode = 0, var_outputData = None\<rparr> of
              (res, s') \<Rightarrow>
                ((case res of Inl e \<Rightarrow> Raised e | Inr r \<Rightarrow> Returned r),
                 Print (''Req Body - '' @ s) # trace s'))"
proof -
  let ?s0 = "\<lparr>trace = [], var_statusCode = 0, var_outputData = None\<rparr>"
  obtain res s' where p: "process_request w reqBody ?s0 = (res, s')"
    by (cases "process_request w reqBody ?s0")
  then have "process_request w reqBody (?s0\<lparr>trace := []\<rparr>) = (res, s')" by simp
  from appends_onlyD [OF appends_only_process_request this, of "[Print (''Req Body - '' @ s)]"]
  have "handler_prog w event ?s0 = (res, s'\<lparr>trace := Print (''Req Body - '' @ s) # trace s'\<rparr>)"
    using assms by (simp add: handler_prog_def then_do_lift then_do_emit loads_def)
  with p show ?thesis by (simp add: handler_def split: sum.split)
qed

lemma sample_pair:
  "handler sample_world sample_event = (Returned sample_response, snd (handler sample_world sample_event))"
  by (rule handler_pair) (rule sample_run)

lemma sample_pair_later:
  "handler sample_world_later sample_event =
     (Returned sample_response_later, snd (handler sample_world_later sample_event))"
  by (rule handler_pair) (rule sample_run_later)

lemma sample_status: "statusCode sample_response = 200" "statusCode sample_response_later = 200"
  by (simp_all add: sample_response_def sample_response_later_def)

lemma sample_clock: "valid_datetime (now sample_world)" "valid_datetime (now sample_world_later)"
  by (simp_all add: valid_datetime_def sample_world_def sample_world_later_def)

lemma sample_loads:
  "json_loads sample_world sample_body = Inr (sample_request (JInt 42))"
  "json_loads sample_world sample_body_str_id = Inr (sample_request (JStr ''42''))"
  by (simp_all add: sample_world_def sample_json_loads_def sample_body_def sample_body_str_id_def)

section \<open>Properties of the handler\<close>

text \<open>
  Claim C1.  When the body of the request parses to a JSON object that lacks at least one
  of the four required fields, whichever it is, the handler returns status 400 with the
  JSON-encoded message \<^verbatim>\<open>Error: Required fields are missing in request body\<close> as body.
  The only effect before the return is the print of the body: the template is not opened
  and no client of the transcoding service is made or called.
\<close>

theorem handler_missing_field_400:
  assumes "getitem event (Key ''body'') = Inr (JStr s)"
    and "json_loads w s = Inr (JObj kvs)"
    and "\<exists>k\<in>set required_fields. k \<notin> set (map fst kvs)"
  shows \<open>handler w event =
           (Returned \<lparr>statusCode = 400,
                      body = ''"Error: Required fields are missing in request body"'',
                      headers = [(''Content-Type'', ''application/json''),
                                 (''Access-Control-Allow-Origin'', ''*'')]\<rparr>,
            [Print (''Req Body - '' @ s)])\<close>
proof -
  have "any_not_in required_fields (JObj kvs) = Inr True"
    using assms(3) by (simp only: any_not_in_JObj)
  then have "process_request w (JObj kvs) s0 = (Inr missing_fields_response, s0)" for s0
    by (simp add: process_request_def then_do_lift ret_def)
  with assms(1,2) show ?thesis
    by (simp add: handler_def handler_prog_def then_do_lift then_do_emit loads_def
        missing_fields_response_eq bad_request_response_def)
qed

theorem handler_missing_field_400_witness:
  \<open>getitem partial_event (Key ''body'') = Inr (JStr ''{"uniqueId": 42}'') \<and>
   json_loads sample_world ''{"uniqueId": 42}'' = Inr (JObj [(''uniqueId'', JInt 42)]) \<and>
   (\<exists>k\<in>set required_fields. k \<notin> set (map fst [(''uniqueId'', JInt 42)])) \<and>
   handler sample_world partial_event =
     (Returned \<lparr>statusCode = 400,
                body = ''"Error: Required fields are missing in request body"'',
                headers = [(''Content-Type'', ''application/json''),
                           (''Access-Control-Allow-Origin'', ''*'')]\<rparr>,
      [Print ''Req Body - {"uniqueId": 42}''])\<close>
proof -
  have a: \<open>getitem partial_event (Key ''body'') = Inr (JStr ''{"uniqueId": 42}'')\<close>
    by (simp add: partial_event_def)
  have b: \<open>json_loads sample_world ''{"uniqueId": 42}'' = Inr (JObj [(''uniqueId'', JInt 42)])\<close>
    by (simp add: sample_world_def sample_json_loads_def sample_body_def sample_body_str_id_def)
  have c: "\<exists>k\<in>set required_fields. k \<notin> set (map fst [(''uniqueId'', JInt 42)])"
    by (simp add: required_fields_def)
  from handler_missing_field_400 [OF a b c] a b c show ?thesis by simp
qed

text \<open>
  Claim C2.  The claim says that a failure of the job submission still yields a response
  with status 500.  On the sample request with a job submission that raises, the handler
  prints the exception and then returns nothing: the \<^verbatim>\<open>return\<close> of the \<^verbatim>\<open>finally\<close> block
  reads \<^verbatim>\<open>outputData\<close>, which line 71 never bound, and the handler raises
  \<^verbatim>\<open>UnboundLocalError\<close> in place of the exception of the submission.
\<close>

theorem handler_submission_failure_raises:
  "fst (handler failing_world sample_event) = Raised (UnboundLocalError ''outputData'') \<and>
   last (snd (handler failing_world sample_event)) = PrintException (External ''ClientError'')"
  by code_simp

text \<open>
  Claim C3.  In every response with status 200 the field \<^verbatim>\<open>video_s3_key\<close> is
  \<^verbatim>\<open>/public/\<close>, the \<^verbatim>\<open>uniqueId\<close> of the request as a string, a slash, the timestamp,
  \<^verbatim>\<open>/HLS/\<close> and the base name of the source URL without extension.  The timestamp is the
  clock of the call formatted year, month, day, hour, minute, second: for a clock in the
  ranges of a \<^verbatim>\<open>datetime\<close> with a year of four digits it is 14 decimal digits, from which
  each of the six fields is read back at its position.
\<close>

theorem object_key_format:
  assumes "handler w event = (Returned r, tr)" and "statusCode r = 200"
  shows "(\<exists>event_body reqBody url uid od.
            getitem event (Key ''body'') = Inr event_body \<and>
            loads w event_body = Inr reqBody \<and>
            getitem reqBody (Key ''video_source_url'') = Inr (JStr url) \<and>
            getitem reqBody (Key ''uniqueId'') = Inr uid \<and>
            body r = json_dumps (JObj od) \<and>
            map_of od ''video_s3_key'' =
              Some (JStr (''/public/'' @ py_str uid @ ''/'' @ strftime (now w) @ ''/HLS/'' @
                          fst (splitext (basename url))))) \<and>
         (valid_datetime (now w) \<longrightarrow>
            length (strftime (now w)) = 14 \<and>
            set (strftime (now w)) \<subseteq> set ''0123456789'' \<and>
            parse_dec (take 4 (strftime (now w))) = year (now w) \<and>
            parse_dec (take 2 (drop 4 (strftime (now w)))) = month (now w) \<and>
            parse_dec (take 2 (drop 6 (strftime (now w)))) = day (now w) \<and>
            parse_dec (take 2 (drop 8 (strftime (now w)))) = hour (now w) \<and>
            parse_dec (take 2 (drop 10 (strftime (now w)))) = minute (now w) \<and>
            parse_dec (take 2 (drop 12 (strftime (now w)))) = second (now w))"
proof (intro conjI impI)
  show "\<exists>event_body reqBody url uid od.
            getitem event (Key ''body'') = Inr event_body \<and>
            loads w event_body = Inr reqBody \<and>
            getitem reqBody (Key ''video_source_url'') = Inr (JStr url) \<and>
            getitem reqBody (Key ''uniqueId'') = Inr uid \<and>
            body r = json_dumps (JObj od) \<and>
            map_of od ''video_s3_key'' =
              Some (JStr (''/public/'' @ py_str uid @ ''/'' @ strftime (now w) @ ''/HLS/'' @
                          fst (splitext (basename url))))"
    using assms
  proof (rule handler_success)
    fix event_body reqBody url bucket region uid key
    assume a: "getitem event (Key ''body'') = Inr event_body"
      and b: "loads w event_body = Inr reqBody"
      and c: "getitem reqBody (Key ''video_source_url'') = Inr (JStr url)"
      and d: "getitem reqBody (Key ''uniqueId'') = Inr uid"
      and k: "key = video_S3Key (py_str uid) (strftime (now w)) (fst (splitext (basename url)))"
      and e: "body r = json_dumps (JObj (output_fields bucket region key))"
    have "map_of (output_fields bucket region key) ''video_s3_key'' =
            Some (JStr (''/public/'' @ py_str uid @ ''/'' @ strftime (now w) @ ''/HLS/'' @
                          fst (splitext (basename url))))"
      by (simp add: map_of_output_fields k video_S3Key_def)
    then show ?thesis
      by (intro exI conjI) (rule a, rule b, rule c, rule d, rule e)
  qed
next
  assume v: "valid_datetime (now w)"
  then show "length (strftime (now w)) = 14" by (rule strftime_length)
  show "set (strftime (now w)) \<subseteq> set ''0123456789''" by (rule strftime_digits)
  from strftime_fields [OF v] show
    "parse_dec (take 4 (strftime (now w))) = year (now w)"
    "parse_dec (take 2 (drop 4 (strftime (now w)))) = month (now w)"
    "parse_dec (take 2 (drop 6 (strftime (now w)))) = day (now w)"
    "parse_dec (take 2 (drop 8 (strftime (now w)))) = hour (now w)"
    "parse_dec (take 2 (drop 10 (strftime (now w)))) = minute (now w)"
    "parse_dec (take 2 (drop 12 (strftime (now w)))) = second (now w)"
    by simp_all
qed

theorem object_key_format_witness:
  "handler sample_world sample_event =
     (Returned sample_response, snd (handler sample_world sample_event)) \<and>
   statusCode sample_response = 200 \<and>
   valid_datetime (now sample_world) \<and>
   (\<exists>event_body reqBody url uid od.
      getitem sample_event (Key ''body'') = Inr event_body \<and>
      loads sample_world event_body = Inr reqBody \<and>
      getitem reqBody (Key ''video_source_url'') = Inr (JStr url) \<and>
      getitem reqBody (Key ''uniqueId'') = Inr uid \<and>
      body sample_response = json_dumps (JObj od) \<and>
      map_of od ''video_s3_key'' =
        Some (JStr (''/public/'' @ py_str uid @ ''/'' @ strftime (now sample_world) @ ''/HLS/'' @
                    fst (splitext (basename url))))) \<and>
   length (strftime (now sample_world)) = 14 \<and>
   parse_dec (take 4 (strftime (now sample_world))) = year (now sample_world)"
  using object_key_format [OF sample_pair sample_status(1)] sample_pair sample_status(1)
    sample_clock(1)
  by simp

text \<open>
  Claim C4.  In every response with status 200 the field \<^verbatim>\<open>final_video_hls_url\<close> is
  \<^verbatim>\<open>https://\<close>, the bucket of the request, \<^verbatim>\<open>.s3.\<close>, the region of the request as a
  string, \<^verbatim>\<open>.amazonaws.com\<close>, the object key of the same response and \<^verbatim>\<open>.m3u8\<close>.  For the
  bucket \<^verbatim>\<open>my-bucket\<close>, the region \<^verbatim>\<open>us-east-1\<close> and the key
  \<^verbatim>\<open>/public/42/20240101000000/HLS/clip\<close> this is the URL of the specification.
\<close>

theorem final_video_hls_url_format:
  assumes "handler w event = (Returned r, tr)" and "statusCode r = 200"
  shows "(\<exists>event_body reqBody bucket region key od.
            getitem event (Key ''body'') = Inr event_body \<and>
            loads w event_body = Inr reqBody \<and>
            getitem reqBody (Key ''destination_bucket'') = Inr (JStr bucket) \<and>
            getitem reqBody (Key ''destination_bucket_region'') = Inr region \<and>
            body r = json_dumps (JObj od) \<and>
            map_of od ''video_s3_key'' = Some (JStr key) \<and>
            map_of od ''final_video_hls_url'' =
              Some (JStr (''https://'' @ bucket @ ''.s3.'' @ py_str region @
                          ''.amazonaws.com'' @ key @ ''.m3u8''))) \<and>
         final_video_hls_url (JStr ''my-bucket'') (JStr ''us-east-1'')
             ''/public/42/20240101000000/HLS/clip'' =
           ''https://my-bucket.s3.us-east-1.amazonaws.com/public/42/20240101000000/HLS/clip.m3u8''"
proof (rule conjI)
  show "\<exists>event_body reqBody bucket region key od.
            getitem event (Key ''body'') = Inr event_body \<and>
            loads w event_body = Inr reqBody \<and>
            getitem reqBody (Key ''destination_bucket'') = Inr (JStr bucket) \<and>
            getitem reqBody (Key ''destination_bucket_region'') = Inr region \<and>
            body r = json_dumps (JObj od) \<and>
            map_of od ''video_s3_key'' = Some (JStr key) \<and>
            map_of od ''final_video_hls_url'' =
              Some (JStr (''https://'' @ bucket @ ''.s3.'' @ py_str region @
                          ''.amazonaws.com'' @ key @ ''.m3u8''))"
    using assms
  proof (rule handler_success)
    fix event_body reqBody bucket region key
    assume a: "getitem event (Key ''body'') = Inr event_body"
      and b: "loads w event_body = Inr reqBody"
      and c: "getitem reqBody (Key ''destination_bucket'') = Inr (JStr bucket)"
      and d: "getitem reqBody (Key ''destination_bucket_region'') = Inr region"
      and e: "body r = json_dumps (JObj (output_fields bucket region key))"
    have "map_of (output_fields bucket region key) ''final_video_hls_url'' =
            Some (JStr (''https://'' @ bucket @ ''.s3.'' @ py_str region @
                          ''.amazonaws.com'' @ key @ ''.m3u8''))"
      by (simp add: map_of_output_fields final_video_hls_url_def)
    then show ?thesis
      by (intro exI conjI) (rule a, rule b, rule c, rule d, rule e, rule map_of_output_fields)
  qed
next
  show "final_video_hls_url (JStr ''my-bucket'') (JStr ''us-east-1'')
             ''/public/42/20240101000000/HLS/clip'' =
           ''https://my-bucket.s3.us-east-1.amazonaws.com/public/42/20240101000000/HLS/clip.m3u8''"
    by (simp add: final_video_hls_url_def)
qed

theorem final_video_hls_url_format_witness:
  "handler sample_world sample_event =
     (Returned sample_response, snd (handler sample_world sample_event)) \<and>
   statusCode sample_response = 200 \<and>
   (\<exists>event_body reqBody bucket region key od.
      getitem sample_event (Key ''body'') = Inr event_body \<and>
      loads sample_world event_body = Inr reqBody \<and>
      getitem reqBody (Key ''destination_bucket'') = Inr (JStr bucket) \<and>
      getitem reqBody (Key ''destination_bucket_region'') = Inr region \<and>
      body sample_response = json_dumps (JObj od) \<and>
      map_of od ''video_s3_key'' = Some (JStr key) \<and>
      map_of od ''final_video_hls_url'' =
        Some (JStr (''https://'' @ bucket @ ''.s3.'' @ py_str region @
                    ''.amazonaws.com'' @ key @ ''.m3u8'')))"
  using final_video_hls_url_format [OF sample_pair sample_status(1)] sample_pair sample_status(1)
  by (intro conjI) (simp_all only: simp_thms)



text \<open>
  Claim C6.  In every response with status 200 the field \<^verbatim>\<open>thumbnail_url\<close> is the empty
  string, whatever the request and the collaborators.
\<close>

theorem thumbnail_url_empty:
  assumes "handler w event = (Returned r, tr)" and "statusCode r = 200"
  shows "\<exists>od. body r = json_dumps (JObj od) \<and> map_of od ''thumbnail_url'' = Some (JStr [])"
  using assms by (rule handler_success) (intro exI conjI, assumption, rule map_of_output_fields)

theorem thumbnail_url_empty_witness:
  "handler sample_world sample_event =
     (Returned sample_response, snd (handler sample_world sample_event)) \<and>
   statusCode sample_response = 200 \<and>
   (\<exists>od. body sample_response = json_dumps (JObj od) \<and>
         map_of od ''thumbnail_url'' = Some (JStr []))"
  using thumbnail_url_empty [OF sample_pair sample_status(1)] sample_pair sample_status(1)
  by (intro conjI)

text \<open>
  Claim C7.  Two calls on the same event, read by the same parser, that both return
  status 200: their object keys are built from the same \<^verbatim>\<open>uniqueId\<close> and base name and
  each from its own timestamp.  When the timestamps differ, the keys differ and so do the
  destination paths; when the timestamps are equal, the keys are equal.  Two clocks within
  the ranges of a \<^verbatim>\<open>datetime\<close>, with years of four digits, that differ in a field down to
  the second give different timestamps.
\<close>

theorem object_key_depends_on_timestamp:
  assumes "handler w1 event = (Returned r1, tr1)" and "statusCode r1 = 200"
    and "handler w2 event = (Returned r2, tr2)" and "statusCode r2 = 200"
    and "json_loads w1 = json_loads w2"
  shows "(\<exists>uid base bucket od1 od2.
            body r1 = json_dumps (JObj od1) \<and> body r2 = json_dumps (JObj od2) \<and>
            map_of od1 ''video_s3_key'' = Some (JStr (video_S3Key uid (strftime (now w1)) base)) \<and>
            map_of od2 ''video_s3_key'' = Some (JStr (video_S3Key uid (strftime (now w2)) base)) \<and>
            map_of od1 ''video_s3_path'' =
              Some (JStr (''s3://'' @ bucket @ video_S3Key uid (strftime (now w1)) base)) \<and>
            map_of od2 ''video_s3_path'' =
              Some (JStr (''s3://'' @ bucket @ video_S3Key uid (strftime (now w2)) base)) \<and>
            (strftime (now w1) \<noteq> strftime (now w2) \<longrightarrow>
               video_S3Key uid (strftime (now w1)) base \<noteq> video_S3Key uid (strftime (now w2)) base \<and>
               ''s3://'' @ bucket @ video_S3Key uid (strftime (now w1)) base \<noteq>
               ''s3://'' @ bucket @ video_S3Key uid (strftime (now w2)) base) \<and>
            (strftime (now w1) = strftime (now w2) \<longrightarrow>
               video_S3Key uid (strftime (now w1)) base = video_S3Key uid (strftime (now w2)) base)) \<and>
         (valid_datetime (now w1) \<and> valid_datetime (now w2) \<and>
          (year (now w1), month (now w1), day (now w1), hour (now w1), minute (now w1),
           second (now w1)) \<noteq>
          (year (now w2), month (now w2), day (now w2), hour (now w2), minute (now w2),
           second (now w2)) \<longrightarrow>
          strftime (now w1) \<noteq> strftime (now w2))"
proof (rule conjI)
  from assms(1,2) obtain eb1 rb1 url1 bucket1 region1 uid1 key1 where
    1: "getitem event (Key ''body'') = Inr eb1" "loads w1 eb1 = Inr rb1"
       "getitem rb1 (Key ''video_source_url'') = Inr (JStr url1)"
       "getitem rb1 (Key ''destination_bucket'') = Inr (JStr bucket1)"
       "getitem rb1 (Key ''uniqueId'') = Inr uid1"
       "key1 = video_S3Key (py_str uid1) (strftime (now w1)) (fst (splitext (basename url1)))"
       "body r1 = json_dumps (JObj (output_fields bucket1 region1 key1))"
    by (rule handler_success)
  from assms(3,4) obtain eb2 rb2 url2 bucket2 region2 uid2 key2 where
    2: "getitem event (Key ''body'') = Inr eb2" "loads w2 eb2 = Inr rb2"
       "getitem rb2 (Key ''video_source_url'') = Inr (JStr url2)"
       "getitem rb2 (Key ''destination_bucket'') = Inr (JStr bucket2)"
       "getitem rb2 (Key ''uniqueId'') = Inr uid2"
       "key2 = video_S3Key (py_str uid2) (strftime (now w2)) (fst (splitext (basename url2)))"
       "body r2 = json_dumps (JObj (output_fields bucket2 region2 key2))"
    by (rule handler_success)
  from 1(1) 2(1) have "eb2 = eb1" by simp
  with 1(2) 2(2) assms(5) have "rb2 = rb1" by (simp add: loads_def split: json.splits)
  with 1 2 have same: "url2 = url1" "bucket2 = bucket1" "uid2 = uid1" by simp_all
  let ?uid = "py_str uid1" and ?base = "fst (splitext (basename url1))"
  show "\<exists>uid base bucket od1 od2.
            body r1 = json_dumps (JObj od1) \<and> body r2 = json_dumps (JObj od2) \<and>
            map_of od1 ''video_s3_key'' = Some (JStr (video_S3Key uid (strftime (now w1)) base)) \<and>
            map_of od2 ''video_s3_key'' = Some (JStr (video_S3Key uid (strftime (now w2)) base)) \<and>
            map_of od1 ''video_s3_path'' =
              Some (JStr (''s3://'' @ bucket @ video_S3Key uid (strftime (now w1)) base)) \<and>
            map_of od2 ''video_s3_path'' =
              Some (JStr (''s3://'' @ bucket @ video_S3Key uid (strftime (now w2)) base)) \<and>
            (strftime (now w1) \<noteq> strftime (now w2) \<longrightarrow>
               video_S3Key uid (strftime (now w1)) base \<noteq> video_S3Key uid (strftime (now w2)) base \<and>
               ''s3://'' @ bucket @ video_S3Key uid (strftime (now w1)) base \<noteq>
               ''s3://'' @ bucket @ video_S3Key uid (strftime (now w2)) base) \<and>
            (strftime (now w1) = strftime (now w2) \<longrightarrow>
               video_S3Key uid (strftime (now w1)) base = video_S3Key uid (strftime (now w2)) base)"
    apply (rule exI [of _ ?uid], rule exI [of _ ?base], rule exI [of _ bucket1])
    apply (rule exI [of _ "output_fields bucket1 region1 key1"])
    apply (rule exI [of _ "output_fields bucket2 region2 key2"])
    apply (simp only: 1(7) 2(7) map_of_output_fields simp_thms)
    apply (simp add: 1(6) 2(6) same video_S3Key_inj)
    done
next
  show "valid_datetime (now w1) \<and> valid_datetime (now w2) \<and>
          (year (now w1), month (now w1), day (now w1), hour (now w1), minute (now w1),
           second (now w1)) \<noteq>
          (year (now w2), month (now w2), day (now w2), hour (now w2), minute (now w2),
           second (now w2)) \<longrightarrow>
          strftime (now w1) \<noteq> strftime (now w2)"
    using strftime_inj [of "now w1" "now w2"] by auto
qed

theorem object_key_depends_on_timestamp_witness:
  "handler sample_world sample_event =
     (Returned sample_response, snd (handler sample_world sample_event)) \<and>
   statusCode sample_response = 200 \<and>
   handler sample_world_later sample_event =
     (Returned sample_response_later, snd (handler sample_world_later sample_event)) \<and>
   statusCode sample_response_later = 200 \<and>
   json_loads sample_world = json_loads sample_world_later \<and>
   valid_datetime (now sample_world) \<and> valid_datetime (now sample_world_later) \<and>
   second (now sample_world) \<noteq> second (now sample_world_later) \<and>
   strftime (now sample_world) \<noteq> strftime (now sample_world_later) \<and>
   (\<exists>uid base bucket od1 od2.
      body sample_response = json_dumps (JObj od1) \<and>
      body sample_response_later = json_dumps (JObj od2) \<and>
      map_of od1 ''video_s3_key'' =
        Some (JStr (video_S3Key uid (strftime (now sample_world)) base)) \<and>
      map_of od2 ''video_s3_key'' =
        Some (JStr (video_S3Key uid (strftime (now sample_world_later)) base)) \<and>
      map_of od1 ''video_s3_path'' =
        Some (JStr (''s3://'' @ bucket @ video_S3Key uid (strftime (now sample_world)) base)) \<and>
      map_of od2 ''video_s3_path'' =
        Some (JStr (''s3://'' @ bucket @
                    video_S3Key uid (strftime (now sample_world_later)) base)) \<and>
      video_S3Key uid (strftime (now sample_world)) base \<noteq>
        video_S3Key uid (strftime (now sample_world_later)) base \<and>
      ''s3://'' @ bucket @ video_S3Key uid (strftime (now sample_world)) base \<noteq>
        ''s3://'' @ bucket @ video_S3Key uid (strftime (now sample_world_later)) base) \<and>
   (\<exists>uid base od.
      body sample_response = json_dumps (JObj od) \<and>
      map_of od ''video_s3_key'' =
        Some (JStr (video_S3Key uid (strftime (now sample_world)) base)))"
proof -
  have l: "json_loads sample_world = json_loads sample_world_later"
    by (simp add: sample_world_later_def)
  have s: "second (now sample_world) \<noteq> second (now sample_world_later)"
    by (simp add: sample_world_def sample_world_later_def)
  note t = object_key_depends_on_timestamp
    [OF sample_pair sample_status(1) sample_pair_later sample_status(2) l]
  from t s sample_clock have d: "strftime (now sample_world) \<noteq> strftime (now sample_world_later)"
    by simp
  from t d have diff: "\<exists>uid base bucket od1 od2.
      body sample_response = json_dumps (JObj od1) \<and>
      body sample_response_later = json_dumps (JObj od2) \<and>
      map_of od1 ''video_s3_key'' =
        Some (JStr (video_S3Key uid (strftime (now sample_world)) base)) \<and>
      map_of od2 ''video_s3_key'' =
        Some (JStr (video_S3Key uid (strftime (now sample_world_later)) base)) \<and>
      map_of od1 ''video_s3_path'' =
        Some (JStr (''s3://'' @ bucket @ video_S3Key uid (strftime (now sample_world)) base)) \<and>
      map_of od2 ''video_s3_path'' =
        Some (JStr (''s3://'' @ bucket @
                    video_S3Key uid (strftime (now sample_world_later)) base)) \<and>
      video_S3Key uid (strftime (now sample_world)) base \<noteq>
        video_S3Key uid (strftime (now sample_world_later)) base \<and>
      ''s3://'' @ bucket @ video_S3Key uid (strftime (now sample_world)) base \<noteq>
        ''s3://'' @ bucket @ video_S3Key uid (strftime (now sample_world_later)) base"
    by (simp only: simp_thms)
  note t' = object_key_depends_on_timestamp
    [OF sample_pair sample_status(1) sample_pair sample_status(1) refl]
  then have same: "\<exists>uid base od.
      body sample_response = json_dumps (JObj od) \<and>
      map_of od ''video_s3_key'' =
        Some (JStr (video_S3Key uid (strftime (now sample_world)) base))"
    by blast
  from sample_pair sample_status sample_pair_later l sample_clock s d diff same
  show ?thesis by (intro conjI)
qed

text \<open>
  Claim C8.  Every response the handler returns, with status 400 or 200, has exactly the
  two headers \<^verbatim>\<open>Content-Type: application/json\<close> and \<^verbatim>\<open>Access-Control-Allow-Origin: *\<close>.
\<close>

theorem response_headers:
  assumes "handler w event = (Returned r, tr)"
  shows "headers r = [(''Content-Type'', ''application/json''), (''Access-Control-Allow-Origin'', ''*'')]"
  using handler_Returned [OF assms]
  by (elim exE conjE disjE) (simp_all add: missing_fields_response_def std_headers_def del: json_dumps.simps)

theorem response_headers_witness:
  "handler sample_world sample_event =
     (Returned sample_response, snd (handler sample_world sample_event)) \<and>
   headers sample_response =
     [(''Content-Type'', ''application/json''), (''Access-Control-Allow-Origin'', ''*'')]"
  using response_headers [OF sample_pair] sample_pair by (intro conjI)

text \<open>
  Claim C9 says that the 400 response is produced only when the body parses to a JSON
  object.  The body \<^verbatim>\<open>[]\<close> parses to the empty list, on which the membership tests of
  line 18 are defined and all fail: the handler returns the 400 response.
\<close>

theorem validation_response_for_array_body:
  "getitem array_event (Key ''body'') = Inr (JStr ''[]'') \<and>
   json_loads sample_world ''[]'' = Inr (JArr []) \<and>
   handler sample_world array_event =
     (Returned bad_request_response, [Print ''Req Body - []'']) \<and>
   statusCode bad_request_response = 400"
proof (intro conjI)
  show "getitem array_event (Key ''body'') = Inr (JStr ''[]'')"
    by (simp add: array_event_def)
  show "json_loads sample_world ''[]'' = Inr (JArr [])"
    by (simp add: sample_world_def sample_json_loads_def sample_body_def sample_body_str_id_def)
  show "handler sample_world array_event =
          (Returned bad_request_response, [Print ''Req Body - []''])"
    by (rule array_run)
  show "statusCode bad_request_response = 400"
    by (simp add: bad_request_response_def)
qed

text \<open>
  Claim C9, amended.  The body is read and parsed before validation.  An event without
  \<^verbatim>\<open>body\<close> makes the handler raise before any effect, and a body that \<^verbatim>\<open>json.loads\<close>
  refuses makes it raise after the print; in both cases no response is returned.  The 400
  response is produced only for a body that is a string and parses to a JSON object, array
  or string: the values on which the membership test of line 18 is defined.
\<close>

theorem unparsed_body_raises:
  "(getitem event (Key ''body'') = Inl e \<longrightarrow> handler w event = (Raised e, [])) \<and>
   (getitem event (Key ''body'') = Inr event_body \<and> loads w event_body = Inl e \<longrightarrow>
      handler w event = (Raised e, [Print (''Req Body - '' @ py_str event_body)])) \<and>
   (handler w event = (Returned r, tr) \<and> statusCode r = 400 \<longrightarrow>
      (\<exists>s reqBody.
         getitem event (Key ''body'') = Inr (JStr s) \<and> json_loads w s = Inr reqBody \<and>
         ((\<exists>kvs. reqBody = JObj kvs) \<or> (\<exists>xs. reqBody = JArr xs) \<or> (\<exists>t. reqBody = JStr t))))"
proof (intro conjI impI)
  assume "getitem event (Key ''body'') = Inl e"
  then show "handler w event = (Raised e, [])" by (rule handler_no_body)
next
  assume "getitem event (Key ''body'') = Inr event_body \<and> loads w event_body = Inl e"
  then show "handler w event = (Raised e, [Print (''Req Body - '' @ py_str event_body)])"
    by (simp add: handler_unparsed)
next
  assume h: "handler w event = (Returned r, tr) \<and> statusCode r = 400"
  then have ret: "handler w event = (Returned r, tr)" and st: "statusCode r = 400" by simp_all
  from handler_Returned [OF ret] obtain eb reqBody where
    eb: "getitem event (Key ''body'') = Inr eb" and rb: "loads w eb = Inr reqBody"
    and alt: "any_not_in required_fields reqBody = Inr True \<or>
              any_not_in required_fields reqBody = Inr False"
    by (elim exE conjE disjE) blast+
  from rb obtain s where s: "eb = JStr s" "json_loads w s = Inr reqBody"
    by (auto simp: loads_Inr)
  from alt have "(\<exists>kvs. reqBody = JObj kvs) \<or> (\<exists>xs. reqBody = JArr xs) \<or> (\<exists>t. reqBody = JStr t)"
    unfolding required_fields_def by (elim disjE) (rule any_not_in_container, assumption)+
  with eb s show "\<exists>s reqBody.
         getitem event (Key ''body'') = Inr (JStr s) \<and> json_loads w s = Inr reqBody \<and>
         ((\<exists>kvs. reqBody = JObj kvs) \<or> (\<exists>xs. reqBody = JArr xs) \<or> (\<exists>t. reqBody = JStr t))"
    by blast
qed

theorem unparsed_body_raises_witness:
  "getitem (JObj []) (Key ''body'') = Inl (KeyError (Key ''body'')) \<and>
   handler sample_world (JObj []) = (Raised (KeyError (Key ''body'')), []) \<and>
   getitem garbled_event (Key ''body'') = Inr (JStr ''not json'') \<and>
   loads sample_world (JStr ''not json'') = Inl (External ''JSONDecodeError'') \<and>
   handler sample_world garbled_event =
     (Raised (External ''JSONDecodeError''), [Print ''Req Body - not json'']) \<and>
   handler sample_world array_event =
     (Returned bad_request_response, [Print ''Req Body - []'']) \<and>
   statusCode bad_request_response = 400 \<and>
   (\<exists>s reqBody.
      getitem array_event (Key ''body'') = Inr (JStr s) \<and>
      json_loads sample_world s = Inr reqBody \<and>
      ((\<exists>kvs. reqBody = JObj kvs) \<or> (\<exists>xs. reqBody = JArr xs) \<or> (\<exists>t. reqBody = JStr t)))"
proof -
  have a: "getitem (JObj []) (Key ''body'') = Inl (KeyError (Key ''body''))" by simp
  have b: "getitem garbled_event (Key ''body'') = Inr (JStr ''not json'')"
    by (simp add: garbled_event_def)
  have c: "loads sample_world (JStr ''not json'') = Inl (External ''JSONDecodeError'')"
    by (simp add: loads_def sample_world_def sample_json_loads_def sample_body_def
        sample_body_str_id_def)
  have d: "statusCode bad_request_response = 400" by (simp add: bad_request_response_def)
  note t1 = unparsed_body_raises [of "JObj []" "KeyError (Key ''body'')" sample_world]
  note t2 = unparsed_body_raises [of garbled_event "External ''JSONDecodeError''" sample_world
      "JStr ''not json''"]
  note t3 = unparsed_body_raises [of array_event _ sample_world _ bad_request_response
      "[Print ''Req Body - []'']"]
  from t1 a have "handler sample_world (JObj []) = (Raised (KeyError (Key ''body'')), [])"
    by blast
  moreover from t2 b c have "handler sample_world garbled_event =
     (Raised (External ''JSONDecodeError''), [Print ''Req Body - not json''])"
    by simp
  moreover from t3 array_run d have "\<exists>s reqBody.
      getitem array_event (Key ''body'') = Inr (JStr s) \<and>
      json_loads sample_world s = Inr reqBody \<and>
      ((\<exists>kvs. reqBody = JObj kvs) \<or> (\<exists>xs. reqBody = JArr xs) \<or> (\<exists>t. reqBody = JStr t))"
    by blast
  ultimately show ?thesis using a b c d array_run by blast
qed

text \<open>
  Claim C10.  In every response with status 200, \<^verbatim>\<open>final_video_url\<close> and
  \<^verbatim>\<open>video_s3_path\<close> are both \<^verbatim>\<open>s3://\<close>, the bucket of the request and the object key of the
  same response, and this is also the destination in the HLS output group of the settings
  submitted with the job, the last effect of the call.  Moreover two requests that differ
  only in \<^verbatim>\<open>uniqueId\<close>, one holding a value (a number in particular) and the other the
  string that \<^verbatim>\<open>str\<close> makes of it, have the same outcome and, after the print of the body,
  the same effects.
\<close>

theorem destination_fields_agree:
  "(handler w event = (Returned r, tr) \<and> statusCode r = 200 \<longrightarrow>
      (\<exists>event_body reqBody bucket key od aws_region endpoint_url role metadata settings.
         getitem event (Key ''body'') = Inr event_body \<and>
         loads w event_body = Inr reqBody \<and>
         getitem reqBody (Key ''destination_bucket'') = Inr (JStr bucket) \<and>
         body r = json_dumps (JObj od) \<and>
         map_of od ''video_s3_key'' = Some (JStr key) \<and>
         map_of od ''final_video_url'' = Some (JStr (''s3://'' @ bucket @ key)) \<and>
         map_of od ''video_s3_path'' = Some (JStr (''s3://'' @ bucket @ key)) \<and>
         last tr = CreateJob aws_region endpoint_url role metadata settings \<and>
         get_at settings (hls_group_settings @ [Key ''Destination'']) =
           Inr (JStr (''s3://'' @ bucket @ key)))) \<and>
   (getitem event1 (Key ''body'') = Inr (JStr s1) \<and> json_loads w s1 = Inr (JObj kvs1) \<and>
    getitem event2 (Key ''body'') = Inr (JStr s2) \<and> json_loads w s2 = Inr (JObj kvs2) \<and>
    map_of kvs1 ''uniqueId'' = Some v \<and>
    map_of kvs2 ''uniqueId'' = Some (JStr (py_str v)) \<and>
    map_of kvs1 ''video_source_url'' = map_of kvs2 ''video_source_url'' \<and>
    map_of kvs1 ''destination_bucket'' = map_of kvs2 ''destination_bucket'' \<and>
    map_of kvs1 ''destination_bucket_region'' = map_of kvs2 ''destination_bucket_region'' \<longrightarrow>
      fst (handler w event1) = fst (handler w event2) \<and>
      tl (snd (handler w event1)) = tl (snd (handler w event2)))"
proof (intro conjI impI)
  assume "handler w event = (Returned r, tr) \<and> statusCode r = 200"
  then have ret: "handler w event = (Returned r, tr)" and st: "statusCode r = 200" by simp_all
  from ret st show
    "\<exists>event_body reqBody bucket key od aws_region endpoint_url role metadata settings.
         getitem event (Key ''body'') = Inr event_body \<and>
         loads w event_body = Inr reqBody \<and>
         getitem reqBody (Key ''destination_bucket'') = Inr (JStr bucket) \<and>
         body r = json_dumps (JObj od) \<and>
         map_of od ''video_s3_key'' = Some (JStr key) \<and>
         map_of od ''final_video_url'' = Some (JStr (''s3://'' @ bucket @ key)) \<and>
         map_of od ''video_s3_path'' = Some (JStr (''s3://'' @ bucket @ key)) \<and>
         last tr = CreateJob aws_region endpoint_url role metadata settings \<and>
         get_at settings (hls_group_settings @ [Key ''Destination'']) =
           Inr (JStr (''s3://'' @ bucket @ key))"
  proof (rule handler_success)
    fix event_body reqBody bucket region uid role aws_region endpoint_url settings key
    assume a: "getitem event (Key ''body'') = Inr event_body"
      and b: "loads w event_body = Inr reqBody"
      and c: "getitem reqBody (Key ''destination_bucket'') = Inr (JStr bucket)"
      and g: "get_at settings (hls_group_settings @ [Key ''Destination'']) =
                Inr (JStr (''s3://'' @ bucket @ key))"
      and t: "tr = [Print (''Req Body - '' @ py_str event_body),
               OpenJobJson, NewClient aws_region None, DescribeEndpoints aws_region,
               NewClient aws_region (Some endpoint_url),
               CreateJob aws_region endpoint_url role
                 (JObj [(''assetID'', JStr (py_str uid))]) settings]"
      and e: "body r = json_dumps (JObj (output_fields bucket region key))"
    from t have l: "last tr = CreateJob aws_region endpoint_url role
                 (JObj [(''assetID'', JStr (py_str uid))]) settings"
      by simp
    show ?thesis
      by (intro exI conjI)
         (rule a, rule b, rule c, rule e, rule map_of_output_fields, rule map_of_output_fields,
          rule map_of_output_fields, rule l, rule g)
  qed
next
  assume h: "getitem event1 (Key ''body'') = Inr (JStr s1) \<and> json_loads w s1 = Inr (JObj kvs1) \<and>
    getitem event2 (Key ''body'') = Inr (JStr s2) \<and> json_loads w s2 = Inr (JObj kvs2) \<and>
    map_of kvs1 ''uniqueId'' = Some v \<and>
    map_of kvs2 ''uniqueId'' = Some (JStr (py_str v)) \<and>
    map_of kvs1 ''video_source_url'' = map_of kvs2 ''video_source_url'' \<and>
    map_of kvs1 ''destination_bucket'' = map_of kvs2 ''destination_bucket'' \<and>
    map_of kvs1 ''destination_bucket_region'' = map_of kvs2 ''destination_bucket_region''"
  then have eq: "process_request w (JObj kvs1) = process_request w (JObj kvs2)"
    by (intro process_request_uniqueId_str) simp_all
  from h have h1: "handler w event1 =
           (case process_request w (JObj kvs1) \<lparr>trace = [], var_statusCode = 0, var_outputData = None\<rparr> of
              (res, s') \<Rightarrow>
                ((case res of Inl e \<Rightarrow> Raised e | Inr r \<Rightarrow> Returned r),
                 Print (''Req Body - '' @ s1) # trace s'))"
    by (intro handler_via_process_request) simp_all
  from h have h2: "handler w event2 =
           (case process_request w (JObj kvs2) \<lparr>trace = [], var_statusCode = 0, var_outputData = None\<rparr> of
              (res, s') \<Rightarrow>
                ((case res of Inl e \<Rightarrow> Raised e | Inr r \<Rightarrow> Returned r),
                 Print (''Req Body - '' @ s2) # trace s'))"
    by (intro handler_via_process_request) simp_all
  show "fst (handler w event1) = fst (handler w event2)"
    unfolding h1 h2 eq by (simp split: prod.split)
  show "tl (snd (handler w event1)) = tl (snd (handler w event2))"
    unfolding h1 h2 eq by (simp split: prod.split)
qed

theorem destination_fields_agree_witness:
  "handler sample_world sample_event =
     (Returned sample_response, snd (handler sample_world sample_event)) \<and>
   statusCode sample_response = 200 \<and>
   (\<exists>event_body reqBody bucket key od aws_region endpoint_url role metadata settings.
         getitem sample_event (Key ''body'') = Inr event_body \<and>
         loads sample_world event_body = Inr reqBody \<and>
         getitem reqBody (Key ''destination_bucket'') = Inr (JStr bucket) \<and>
         body sample_response = json_dumps (JObj od) \<and>
         map_of od ''video_s3_key'' = Some (JStr key) \<and>
         map_of od ''final_video_url'' = Some (JStr (''s3://'' @ bucket @ key)) \<and>
         map_of od ''video_s3_path'' = Some (JStr (''s3://'' @ bucket @ key)) \<and>
         last (snd (handler sample_world sample_event)) =
           CreateJob aws_region endpoint_url role metadata settings \<and>
         get_at settings (hls_group_settings @ [Key ''Destination'']) =
           Inr (JStr (''s3://'' @ bucket @ key))) \<and>
   getitem sample_event (Key ''body'') = Inr (JStr sample_body) \<and>
   json_loads sample_world sample_body = Inr (sample_request (JInt 42)) \<and>
   getitem sample_event_str_id (Key ''body'') = Inr (JStr sample_body_str_id) \<and>
   json_loads sample_world sample_body_str_id = Inr (sample_request (JStr (py_str (JInt 42)))) \<and>
   fst (handler sample_world sample_event) = fst (handler sample_world sample_event_str_id) \<and>
   tl (snd (handler sample_world sample_event)) =
     tl (snd (handler sample_world sample_event_str_id))"
proof -
  have i: "py_str (JInt 42) = ''42''" by code_simp
  have e1: "getitem sample_event (Key ''body'') = Inr (JStr sample_body)"
    by (simp add: sample_event_def)
  have e2: "getitem sample_event_str_id (Key ''body'') = Inr (JStr sample_body_str_id)"
    by (simp add: sample_event_str_id_def)
  have l2: "json_loads sample_world sample_body_str_id =
              Inr (sample_request (JStr (py_str (JInt 42))))"
    by (simp only: i sample_loads)
  note t = destination_fields_agree
    [of sample_world sample_event sample_response "snd (handler sample_world sample_event)"
        sample_event sample_body
        "[(''video_source_url'', JStr ''https://example.com/in/clip.mp4''),
          (''destination_bucket'', JStr ''my-bucket''),
          (''destination_bucket_region'', JStr ''us-east-1''),
          (''uniqueId'', JInt 42)]"
        sample_event_str_id sample_body_str_id
        "[(''video_source_url'', JStr ''https://example.com/in/clip.mp4''),
          (''destination_bucket'', JStr ''my-bucket''),
          (''destination_bucket_region'', JStr ''us-east-1''),
          (''uniqueId'', JStr (py_str (JInt 42)))]"
        "JInt 42"]
  from t sample_pair sample_status(1) have p1:
    "\<exists>event_body reqBody bucket key od aws_region endpoint_url role metadata settings.
         getitem sample_event (Key ''body'') = Inr event_body \<and>
         loads sample_world event_body = Inr reqBody \<and>
         getitem reqBody (Key ''destination_bucket'') = Inr (JStr bucket) \<and>
         body sample_response = json_dumps (JObj od) \<and>
         map_of od ''video_s3_key'' = Some (JStr key) \<and>
         map_of od ''final_video_url'' = Some (JStr (''s3://'' @ bucket @ key)) \<and>
         map_of od ''video_s3_path'' = Some (JStr (''s3://'' @ bucket @ key)) \<and>
         last (snd (handler sample_world sample_event)) =
           CreateJob aws_region endpoint_url role metadata settings \<and>
         get_at settings (hls_group_settings @ [Key ''Destination'']) =
           Inr (JStr (''s3://'' @ bucket @ key))"
    by (simp only: simp_thms)
  from t e1 e2 sample_loads(1) l2 have p2:
    "fst (handler sample_world sample_event) = fst (handler sample_world sample_event_str_id) \<and>
     tl (snd (handler sample_world sample_event)) =
       tl (snd (handler sample_world sample_event_str_id))"
    by (simp add: sample_request_def)
  from sample_pair sample_status(1) p1 e1 sample_loads(1) e2 l2 p2 show ?thesis
    by (intro conjI) simp_all
qed

end
